theory Spec2Isabelle
  imports Complex_Main
begin

section \<open>The backend client wrapper: health check and retry helper\<close>

text \<open>
  The client wrapper module keeps a module-scoped flag \<open>isConnected\<close> and exports
  \<open>retryOperation\<close>. An operation is a closure \<open>() => Promise<any>\<close>; within one run
  of the helper its behaviour is the sequence of the outcomes of its invocations, so it
  is modelled as a function from the invocation index (counted from 0) to the outcome of
  that invocation. A synchronous throw inside \<open>await operation()\<close> is caught by the same
  \<open>catch\<close> as a rejection, so both are \<open>Rejected\<close>.
\<close>

datatype ('e, 'v) settled = Fulfilled 'v | Rejected 'e

text \<open>What the promise returned by an async function does: the loop of \<open>retryOperation\<close>
  can fall through, in which case the promise resolves with \<open>undefined\<close>.\<close>

datatype ('e, 'v) promise = Resolves 'v | Resolves_undefined | Rejects 'e

text \<open>Outcome of \<open>channel.subscribe\<close> inside the health check: it throws, or it returns
  a value (written as a string, for the comparison with \<open>'SUBSCRIBED'\<close>) and runs the
  status callback with a sequence of statuses.\<close>

datatype subscribe_outcome = Subscribe_throws | Subscribe_returns string "string list"

text \<open>Observable steps of a run, in order: an invocation of the operation, a
  \<open>setTimeout\<close> with the number of milliseconds passed to it, a health check.\<close>

datatype event = Invoke | SetTimeout int | CheckRealtimeHealth

record world =
  calls :: nat
  checks :: nat
  isConnected :: bool
  trace :: "event list"

definition invoke :: "(nat \<Rightarrow> ('e, 'v) settled) \<Rightarrow> world \<Rightarrow> ('e, 'v) settled \<times> world" where
  "invoke operation w =
     (operation (calls w), w\<lparr>calls := Suc (calls w), trace := trace w @ [Invoke]\<rparr>)"

definition setTimeout :: "int \<Rightarrow> world \<Rightarrow> world" where
  "setTimeout ms w = w\<lparr>trace := trace w @ [SetTimeout ms]\<rparr>"

text \<open>\<open>checkRealtimeHealth\<close>: the \<open>try\<close> block subscribes the \<open>system\<close> channel; each run
  of the callback stores \<open>status === 'SUBSCRIBED'\<close> in \<open>isConnected\<close>, so the last status
  wins. The function returns whether the awaited result of \<open>subscribe\<close> is
  \<open>'SUBSCRIBED'\<close>; the \<open>catch\<close> block returns \<open>false\<close>, so it never throws.\<close>

definition checkRealtimeHealth :: "(nat \<Rightarrow> subscribe_outcome) \<Rightarrow> world \<Rightarrow> bool \<times> world" where
  "checkRealtimeHealth subscribe w =
     (let w1 = w\<lparr>checks := Suc (checks w), trace := trace w @ [CheckRealtimeHealth]\<rparr>
      in case subscribe (checks w) of
           Subscribe_throws \<Rightarrow> (False, w1)
         | Subscribe_returns status statuses \<Rightarrow>
             (status = ''SUBSCRIBED'',
              w1\<lparr>isConnected := fold (\<lambda>s connected. s = ''SUBSCRIBED'') statuses (isConnected w1)\<rparr>))"

text \<open>The loop \<open>for (let i = 0; i < maxRetries; i++)\<close> of \<open>retryOperation\<close>, from the
  loop variable \<open>i\<close>. The attempt count and the base delay in milliseconds are integers;
  \<open>Math.pow(2, i)\<close> is \<open>2 ^ i\<close> for the non-negative integer \<open>i\<close>. The result of the
  health check is not used.\<close>

function retry_loop ::
  "(nat \<Rightarrow> ('e, 'v) settled) \<Rightarrow> (nat \<Rightarrow> subscribe_outcome) \<Rightarrow> int \<Rightarrow> int \<Rightarrow> int \<Rightarrow> world
     \<Rightarrow> ('e, 'v) promise \<times> world" where
  "retry_loop operation subscribe maxRetries delay i w =
     (if i < maxRetries then
        (case fst (invoke operation w) of
           Fulfilled v \<Rightarrow> (Resolves v, snd (invoke operation w))
         | Rejected error \<Rightarrow>
             if i = maxRetries - 1 then (Rejects error, snd (invoke operation w))
             else retry_loop operation subscribe maxRetries delay (i + 1)
                    (snd (checkRealtimeHealth subscribe
                       (setTimeout (delay * 2 ^ nat i) (snd (invoke operation w))))))
      else (Resolves_undefined, w))"
  by pat_completeness auto
termination
  by (relation "measure (\<lambda>(operation, subscribe, maxRetries, delay, i, w). nat (maxRetries - i))") auto

definition retryOperation ::
  "(nat \<Rightarrow> ('e, 'v) settled) \<Rightarrow> (nat \<Rightarrow> subscribe_outcome) \<Rightarrow> int \<Rightarrow> int \<Rightarrow> world
     \<Rightarrow> ('e, 'v) promise \<times> world" where
  "retryOperation operation subscribe maxRetries delay w =
     retry_loop operation subscribe maxRetries delay 0 w"

declare retry_loop.simps [simp del]

text \<open>Observations on a run: the events it appended to the trace, and the delays passed
  to \<open>setTimeout\<close>, in order.\<close>

definition events_since :: "world \<Rightarrow> world \<Rightarrow> event list" where
  "events_since w w' = drop (length (trace w)) (trace w')"

text \<open>The attempt count and the delay are JavaScript numbers, and the delay passed to
  \<open>setTimeout\<close> is computed in double precision. On integers up to
  \<open>Number.MAX_SAFE_INTEGER\<close> in absolute value that arithmetic is exact, so there the
  integers of the model are the numbers of the program.\<close>

definition MAX_SAFE_INTEGER :: int where
  "MAX_SAFE_INTEGER = 2 ^ 53 - 1"

fun waits :: "event list \<Rightarrow> int list" where
  "waits [] = []"
| "waits (SetTimeout ms # es) = ms # waits es"
| "waits (e # es) = waits es"

section \<open>Sign-out with cleanup\<close>

text \<open>
  \<open>signOut\<close> works on the browser: the interval timer of the periodic health check (the
  module variable \<open>realtimeHealthCheck\<close> holds its id), the realtime channels of the
  client, local storage and the location. Steps that can throw take their outcome from an
  environment: removing a channel, removing a local-storage item, and the provider's
  \<open>auth.signOut()\<close>, which either throws (or rejects) or returns \<open>{ error }\<close>.
\<close>

datatype so_event =
    ClearInterval nat
  | RemoveChannel nat
  | RemoveItem string
  | AuthSignOut
  | Redirect string
  | ConsoleError

record browser =
  realtimeHealthCheck :: "nat option"
  intervals :: "nat list"
  channels :: "nat list"
  localStorage :: "(string \<times> string) list"
  href :: string
  log :: "so_event list"

datatype 'e auth_outcome = Auth_throws 'e | Auth_returns "'e option"

record 'e so_env =
  removeChannel_error :: "nat \<Rightarrow> 'e option"
  storageKey :: "string option"
  removeItem_error :: "string \<Rightarrow> 'e option"
  auth_signOut :: "'e auth_outcome"

text \<open>\<open>channels.forEach(channel => supabase.removeChannel(channel))\<close>: a throw ends the
  iteration. The result is the thrown error, if any. (The later revision of the module
  also calls \<open>channel.unsubscribe()\<close> before removing a channel; a throw of either call
  is the error of that channel.)\<close>

fun removeChannels :: "(nat \<Rightarrow> 'e option) \<Rightarrow> nat list \<Rightarrow> browser \<Rightarrow> 'e option \<times> browser" where
  "removeChannels err [] b = (None, b)"
| "removeChannels err (c # cs) b =
     (case err c of
        Some e \<Rightarrow> (Some e, b\<lparr>log := log b @ [RemoveChannel c]\<rparr>)
      | None \<Rightarrow>
          removeChannels err cs
            (b\<lparr>channels := removeAll c (channels b), log := log b @ [RemoveChannel c]\<rparr>))"

text \<open>\<open>cleanup\<close>: \<open>if (realtimeHealthCheck) clearInterval(realtimeHealthCheck)\<close> (an id is
  truthy unless it is 0), then every channel returned by \<open>getChannels()\<close> is removed.\<close>

definition clearHealthCheck :: "browser \<Rightarrow> browser" where
  "clearHealthCheck b =
     (case realtimeHealthCheck b of
        None \<Rightarrow> b
      | Some t \<Rightarrow>
          if t \<noteq> 0 then b\<lparr>intervals := removeAll t (intervals b), log := log b @ [ClearInterval t]\<rparr>
          else b)"

definition cleanup :: "(nat \<Rightarrow> 'e option) \<Rightarrow> browser \<Rightarrow> 'e option \<times> browser" where
  "cleanup err b = removeChannels err (channels (clearHealthCheck b)) (clearHealthCheck b)"

definition removeItem :: "(string \<Rightarrow> 'e option) \<Rightarrow> string \<Rightarrow> browser \<Rightarrow> 'e option \<times> browser" where
  "removeItem err key b =
     (case err key of
        Some e \<Rightarrow> (Some e, b\<lparr>log := log b @ [RemoveItem key]\<rparr>)
      | None \<Rightarrow>
          (None, b\<lparr>localStorage := filter (\<lambda>kv. fst kv \<noteq> key) (localStorage b),
                    log := log b @ [RemoveItem key]\<rparr>))"

text \<open>The \<open>try\<close> block of \<open>signOut\<close>: \<open>Inl e\<close> when \<open>e\<close> is thrown, \<open>Inr ()\<close> when the
  block reaches \<open>return { error: null }\<close>. \<open>if (storageKey)\<close> holds for a non-empty
  string.\<close>

definition signOut_try :: "'e so_env \<Rightarrow> browser \<Rightarrow> ('e + unit) \<times> browser" where
  "signOut_try env b =
     (case cleanup (removeChannel_error env) b of
        (Some e, b1) \<Rightarrow> (Inl e, b1)
      | (None, b1) \<Rightarrow>
          (case (case storageKey env of
                   None \<Rightarrow> (None, b1)
                 | Some key \<Rightarrow> if key \<noteq> [] then removeItem (removeItem_error env) key b1 else (None, b1)) of
             (Some e, b2) \<Rightarrow> (Inl e, b2)
           | (None, b2) \<Rightarrow>
               (case auth_signOut env of
                  Auth_throws e \<Rightarrow> (Inl e, b2\<lparr>log := log b2 @ [AuthSignOut]\<rparr>)
                | Auth_returns (Some error) \<Rightarrow> (Inl error, b2\<lparr>log := log b2 @ [AuthSignOut]\<rparr>)
                | Auth_returns None \<Rightarrow>
                    (case removeItem (removeItem_error env) ''supabase.auth.token''
                            (b2\<lparr>log := log b2 @ [AuthSignOut]\<rparr>) of
                       (Some e, b3) \<Rightarrow> (Inl e, b3)
                     | (None, b3) \<Rightarrow>
                         (case removeItem (removeItem_error env) ''supabase.auth.refreshToken'' b3 of
                            (Some e, b4) \<Rightarrow> (Inl e, b4)
                          | (None, b4) \<Rightarrow>
                              (Inr (), b4\<lparr>href := ''/'', log := log b4 @ [Redirect ''/'']\<rparr>))))))"

text \<open>\<open>signOut\<close>: the \<open>catch\<close> block logs the error and returns \<open>{ error }\<close>. The returned
  object is modelled by its \<open>error\<close> field, \<open>None\<close> for \<open>null\<close>.\<close>

definition signOut :: "'e so_env \<Rightarrow> browser \<Rightarrow> ('e, 'e option) promise \<times> browser" where
  "signOut env b =
     (case signOut_try env b of
        (Inr u, b') \<Rightarrow> (Resolves None, b')
      | (Inl error, b') \<Rightarrow> (Resolves (Some error), b'\<lparr>log := log b' @ [ConsoleError]\<rparr>))"

text \<open>Observations on a run of \<open>signOut\<close>: the events it logged; the events of a complete
  cleanup; and the first error in the order of the steps, written from the steps'
  outcomes alone.\<close>

definition so_events :: "browser \<Rightarrow> browser \<Rightarrow> so_event list" where
  "so_events b b' = drop (length (log b)) (log b')"

definition cleanup_events :: "browser \<Rightarrow> so_event list" where
  "cleanup_events b =
     (case realtimeHealthCheck b of
        None \<Rightarrow> []
      | Some t \<Rightarrow> if t \<noteq> 0 then [ClearInterval t] else [])
     @ map RemoveChannel (channels b)"

definition first_error :: "'e so_env \<Rightarrow> browser \<Rightarrow> 'e option" where
  "first_error env b =
     (case find (\<lambda>c. removeChannel_error env c \<noteq> None) (channels b) of
        Some c \<Rightarrow> removeChannel_error env c
      | None \<Rightarrow>
          (case (case storageKey env of
                   None \<Rightarrow> None
                 | Some key \<Rightarrow> if key \<noteq> [] then removeItem_error env key else None) of
             Some e \<Rightarrow> Some e
           | None \<Rightarrow>
               (case auth_signOut env of
                  Auth_throws e \<Rightarrow> Some e
                | Auth_returns (Some e) \<Rightarrow> Some e
                | Auth_returns None \<Rightarrow>
                    (case removeItem_error env ''supabase.auth.token'' of
                       Some e \<Rightarrow> Some e
                     | None \<Rightarrow> removeItem_error env ''supabase.auth.refreshToken''))))"

section \<open>The hosted schema\<close>

text \<open>
  The tables of the migrations, one record per row type and one list of rows per table.
  A \<open>uuid\<close> is an abstract identifier and a \<open>timestamptz\<close> a point in time, both
  numbers here. A nullable column on which a constraint or a comparison of the claims
  depends is an \<open>option\<close> (\<open>None\<close> for \<open>NULL\<close>). The constraints of the schema are
  checked by the insert operations below; they are not built into the types.
\<close>

type_synonym uuid = nat
type_synonym timestamptz = nat

record auth_user =
  au_id :: uuid
  au_email :: "string option"

record message =
  msg_id :: uuid
  msg_text :: string
  msg_sender :: string
  msg_created_at :: timestamptz
  msg_group_id :: "uuid option"

record group_row =
  grp_id :: uuid
  grp_name :: string
  grp_description :: string
  grp_topics :: "string list"
  grp_max_members :: int
  grp_invite_code :: "string option"
  grp_created_at :: timestamptz

record group_member =
  gm_group_id :: uuid
  gm_user_id :: uuid
  gm_joined_at :: timestamptz
  gm_is_creator :: bool

record user_profile =
  up_id :: uuid
  up_name :: string
  up_bio :: string
  up_topics :: "string list"
  up_theme :: string
  up_created_at :: timestamptz
  up_view_code :: "string option"
  up_profile_picture_url :: "string option"
  up_custom_avatar_url :: "string option"
  up_gender :: "string option"

record meeting =
  mt_id :: uuid
  mt_group_id :: "uuid option"
  mt_topic :: string
  mt_jitsi_link :: string
  mt_scheduled_for :: timestamptz
  mt_created_by :: "uuid option"
  mt_created_at :: timestamptz

record database =
  auth_users :: "auth_user list"
  messages :: "message list"
  groups :: "group_row list"
  group_members :: "group_member list"
  user_profiles :: "user_profile list"
  meetings :: "meeting list"

datatype db_error =
    Unique_violation
  | Foreign_key_violation
  | Check_violation
  | Policy_violation
  | Not_a_single_row
  | Request_failed

text \<open>The client's \<open>.single()\<close> fails unless the query has exactly one row;
  \<open>.maybeSingle()\<close> also accepts no row and then returns \<open>null\<close> data.\<close>

fun single :: "'a list \<Rightarrow> db_error + 'a" where
  "single [x] = Inr x"
| "single xs = Inl Not_a_single_row"

fun maybeSingle :: "'a list \<Rightarrow> db_error + 'a option" where
  "maybeSingle [] = Inr None"
| "maybeSingle [x] = Inr (Some x)"
| "maybeSingle xs = Inl Not_a_single_row"

text \<open>
  A \<open>select\<close> with filters is a request to the backend: it is answered with the rows
  that pass the filter, or it fails and the client returns \<open>{ data: null, error }\<close>.
  The failure of a request (\<open>None\<close> when it is answered) is given from outside.
\<close>

definition select_where :: "db_error option \<Rightarrow> ('a \<Rightarrow> bool) \<Rightarrow> 'a list \<Rightarrow> db_error + 'a list" where
  "select_where failure P table =
     (case failure of Some error \<Rightarrow> Inl error | None \<Rightarrow> Inr (filter P table))"

text \<open>The select policies: \<open>user_profiles\<close> and \<open>groups\<close> are readable by everyone
  (\<open>TO public USING (true)\<close>); \<open>group_members\<close> is readable by authenticated users only
  (\<open>TO authenticated USING (true)\<close>), so a client without a session sees none of its
  rows.\<close>

definition visible_group_members :: "uuid option \<Rightarrow> database \<Rightarrow> group_member list" where
  "visible_group_members uid db = (if uid = None then [] else group_members db)"

subsection \<open>Deleting a group\<close>

text \<open>The trigger function \<open>handle_group_deletion\<close>, run with the row \<open>OLD\<close>. A
  comparison \<open>group_id = OLD.id\<close> is not true for a \<open>NULL\<close> group id.\<close>

definition handle_group_deletion :: "group_row \<Rightarrow> database \<Rightarrow> database" where
  "handle_group_deletion old db =
     db\<lparr>messages := filter (\<lambda>m. msg_group_id m \<noteq> Some (grp_id old)) (messages db),
        meetings := filter (\<lambda>m. mt_group_id m \<noteq> Some (grp_id old)) (meetings db),
        group_members := filter (\<lambda>m. gm_group_id m \<noteq> grp_id old) (group_members db)\<rparr>"

text \<open>The policy \<open>Group creators can delete groups\<close>: the acting user has a membership
  row of the group with \<open>is_creator = true\<close>.\<close>

definition creator_can_delete :: "uuid option \<Rightarrow> group_row \<Rightarrow> database \<Rightarrow> bool" where
  "creator_can_delete uid g db =
     (\<exists>m\<in>set (group_members db).
        gm_group_id m = grp_id g \<and> Some (gm_user_id m) = uid \<and> gm_is_creator m)"

text \<open>The references \<open>ON DELETE CASCADE\<close> of \<open>group_members.group_id\<close> and
  \<open>meetings.group_id\<close> to \<open>groups(id)\<close>, applied when the group row goes.\<close>

definition on_delete_cascade :: "uuid \<Rightarrow> database \<Rightarrow> database" where
  "on_delete_cascade gid db =
     db\<lparr>group_members := filter (\<lambda>m. gm_group_id m \<noteq> gid) (group_members db),
        meetings := filter (\<lambda>m. mt_group_id m \<noteq> Some gid) (meetings db)\<rparr>"

text \<open>\<open>DELETE FROM groups WHERE id = gid\<close> by the user \<open>uid\<close>: the row with that primary
  key, if the policy lets the user delete it; the trigger \<open>before_group_delete\<close> runs
  for the row before it is deleted, the cascades after.\<close>

definition delete_group :: "uuid option \<Rightarrow> uuid \<Rightarrow> database \<Rightarrow> database" where
  "delete_group uid gid db =
     (case find (\<lambda>g. grp_id g = gid \<and> creator_can_delete uid g db) (groups db) of
        None \<Rightarrow> db
      | Some old \<Rightarrow>
          (let db1 = handle_group_deletion old db;
               db2 = db1\<lparr>groups := filter (\<lambda>g. grp_id g \<noteq> grp_id old) (groups db1)\<rparr>
           in on_delete_cascade (grp_id old) db2))"

subsection \<open>Inserting rows\<close>

text \<open>\<open>INSERT INTO group_members\<close> by the user \<open>uid\<close>: the policy
  \<open>Authenticated users can join groups\<close> demands \<open>auth.uid() = user_id\<close>, the primary key
  is \<open>(group_id, user_id)\<close>, and both columns reference existing rows. A failed insert
  leaves the database as it was.\<close>

definition insert_group_member ::
  "uuid option \<Rightarrow> group_member \<Rightarrow> database \<Rightarrow> db_error option \<times> database" where
  "insert_group_member uid row db =
     (if uid \<noteq> Some (gm_user_id row) then (Some Policy_violation, db)
      else if \<exists>m\<in>set (group_members db).
                gm_group_id m = gm_group_id row \<and> gm_user_id m = gm_user_id row
        then (Some Unique_violation, db)
      else if gm_group_id row \<notin> grp_id ` set (groups db)
              \<or> gm_user_id row \<notin> au_id ` set (auth_users db)
        then (Some Foreign_key_violation, db)
      else (None, db\<lparr>group_members := group_members db @ [row]\<rparr>))"

text \<open>\<open>INSERT INTO groups\<close>: any authenticated user may insert; \<open>id\<close> is the primary key
  and \<open>invite_code\<close> is \<open>UNIQUE\<close> (two \<open>NULL\<close>s do not collide); \<open>max_members\<close> is a
  32-bit \<open>integer\<close>.\<close>

definition insert_group ::
  "uuid option \<Rightarrow> group_row \<Rightarrow> database \<Rightarrow> db_error option \<times> database" where
  "insert_group uid row db =
     (if uid = None then (Some Policy_violation, db)
      else if \<not> (- (2 ^ 31) \<le> grp_max_members row \<and> grp_max_members row < 2 ^ 31)
        then (Some Check_violation, db)
      else if \<exists>g\<in>set (groups db).
                grp_id g = grp_id row
                \<or> (grp_invite_code row \<noteq> None \<and> grp_invite_code g = grp_invite_code row)
        then (Some Unique_violation, db)
      else (None, db\<lparr>groups := groups db @ [row]\<rparr>))"

text \<open>\<open>INSERT INTO user_profiles\<close> (the table as the later migration recreates it):
  the policy \<open>Users can create own profile\<close> demands \<open>auth.uid() = id\<close>; \<open>id\<close> is the
  primary key, \<open>view_code\<close> is \<open>UNIQUE\<close>, \<open>gender\<close> is \<open>NULL\<close> or one of three
  words.\<close>

definition insert_user_profile ::
  "uuid option \<Rightarrow> user_profile \<Rightarrow> database \<Rightarrow> db_error option \<times> database" where
  "insert_user_profile uid row db =
     (if uid \<noteq> Some (up_id row) then (Some Policy_violation, db)
      else if up_gender row \<notin> {None, Some ''male'', Some ''female'', Some ''other''}
        then (Some Check_violation, db)
      else if \<exists>p\<in>set (user_profiles db).
                up_id p = up_id row
                \<or> (up_view_code row \<noteq> None \<and> up_view_code p = up_view_code row)
        then (Some Unique_violation, db)
      else (None, db\<lparr>user_profiles := user_profiles db @ [row]\<rparr>))"

subsection \<open>Joining a group\<close>

text \<open>
  Modelled from the spec: the join by invite code is done by the component
  \<open>JoinGroupModal\<close>, which is not among the sources. Following the spec's words
  (joining with a known invite code adds a membership row for the joining user), the
  group with the code is looked up and a \<open>group_members\<close> row for it and the user is
  inserted, with the column default \<open>is_creator = false\<close>. The insert is the one of the
  schema above, with its primary key.
\<close>

definition join_group ::
  "uuid option \<Rightarrow> uuid \<Rightarrow> string \<Rightarrow> timestamptz \<Rightarrow> database \<Rightarrow> db_error option \<times> database" where
  "join_group uid userId inviteCode now db =
     (case single (filter (\<lambda>g. grp_invite_code g = Some inviteCode) (groups db)) of
        Inl e \<Rightarrow> (Some e, db)
      | Inr g \<Rightarrow>
          insert_group_member uid
            \<lparr>gm_group_id = grp_id g, gm_user_id = userId, gm_joined_at = now,
              gm_is_creator = False\<rparr> db)"

text \<open>The membership rows of a group and a user.\<close>

definition memberships :: "uuid \<Rightarrow> uuid \<Rightarrow> database \<Rightarrow> group_member list" where
  "memberships gid userId db =
     filter (\<lambda>m. gm_group_id m = gid \<and> gm_user_id m = userId) (group_members db)"

subsection \<open>Finding a person by view code\<close>

record find_person_ui =
  fp_profile :: "user_profile option"
  fp_groups :: "group_row list"
  fp_loading :: bool
  fp_error :: "string option"

definition single_of :: "db_error + 'a list \<Rightarrow> db_error + 'a" where
  "single_of r = (case r of Inl e \<Rightarrow> Inl e | Inr rows \<Rightarrow> single rows)"

text \<open>What a search takes from outside the tables: the session of the client (\<open>None\<close>
  without one) and, for each of its three requests, the failure if it fails.\<close>

record search_env =
  se_uid :: "uuid option"
  se_profile_failure :: "db_error option"
  se_member_failure :: "db_error option"
  se_groups_failure :: "db_error option"

text \<open>\<open>handleSearch\<close> of \<open>FindPersonModal\<close>. Any profile error (a failed request, or
  not exactly one row) throws \<open>Error('User not found')\<close>, whose message the \<open>catch\<close>
  block displays. A member error skips the groups and displays nothing about it.
  \<open>groupsData || []\<close> is the empty list when the last request fails. \<open>finally\<close> clears
  \<open>loading\<close> on every path. Nothing else in the \<open>try\<close> block throws, so the other
  message of the \<open>catch\<close> block is never displayed.\<close>

definition handleSearch ::
  "search_env \<Rightarrow> string \<Rightarrow> database \<Rightarrow> find_person_ui \<Rightarrow> find_person_ui" where
  "handleSearch env viewCode db ui =
     (let ui1 = ui\<lparr>fp_error := None, fp_profile := None, fp_groups := [], fp_loading := True\<rparr>
      in case single_of (select_where (se_profile_failure env)
                           (\<lambda>p. up_view_code p = Some viewCode) (user_profiles db)) of
           Inl profileError \<Rightarrow> ui1\<lparr>fp_error := Some ''User not found'', fp_loading := False\<rparr>
         | Inr profileData \<Rightarrow>
             (let ui2 = ui1\<lparr>fp_profile := Some profileData\<rparr>
              in case select_where (se_member_failure env)
                        (\<lambda>m. gm_user_id m = up_id profileData)
                        (visible_group_members (se_uid env) db) of
                   Inl memberError \<Rightarrow> ui2\<lparr>fp_loading := False\<rparr>
                 | Inr memberData \<Rightarrow>
                     if length memberData > 0 then
                       (let groupIds = map gm_group_id memberData
                        in case select_where (se_groups_failure env)
                                  (\<lambda>g. grp_id g \<in> set groupIds) (groups db) of
                             Inl e \<Rightarrow> ui2\<lparr>fp_groups := [], fp_loading := False\<rparr>
                           | Inr groupsData \<Rightarrow> ui2\<lparr>fp_groups := groupsData, fp_loading := False\<rparr>)
                     else ui2\<lparr>fp_loading := False\<rparr>))"

subsection \<open>Creating a group\<close>

text \<open>\<open>n.toString(36)\<close> for a non-negative integer \<open>n\<close>; \<open>digit36\<close> is the digit of a
  number below 36.\<close>

definition digit36 :: "nat \<Rightarrow> char" where
  "digit36 n = ''0123456789abcdefghijklmnopqrstuvwxyz'' ! n"

function toString36 :: "nat \<Rightarrow> string" where
  "toString36 n = (if n < 36 then [digit36 n] else toString36 (n div 36) @ [digit36 (n mod 36)])"
  by pat_completeness auto
termination
  by (relation "measure id") auto

declare toString36.simps [simp del]

text \<open>The invite code: twelve draws \<open>Math.floor(Math.random() * 36)\<close>, each written in
  base 36, joined. \<open>draws k\<close> is the value of draw number \<open>k\<close>.\<close>

definition inviteCode :: "(nat \<Rightarrow> nat) \<Rightarrow> string" where
  "inviteCode draws = concat (map (\<lambda>k. toString36 (draws k)) [0..<12])"

datatype create_outcome = Create_error db_error | Member_error db_error | Created group_row

text \<open>\<open>handleCreateGroup\<close> of the dashboard of the user \<open>userId\<close>, in the session of
  \<open>uid\<close>. The database supplies the new row's \<open>id\<close> (\<open>gen_random_uuid()\<close>) and
  \<open>created_at\<close> (\<open>now()\<close>), and \<open>joined_at\<close> of the membership row. Each error
  ends the function; after the two inserts it only reads the groups again and closes
  the modal.\<close>

definition handleCreateGroup ::
  "uuid option \<Rightarrow> uuid \<Rightarrow> (nat \<Rightarrow> nat) \<Rightarrow> uuid \<Rightarrow> timestamptz
     \<Rightarrow> string \<Rightarrow> string \<Rightarrow> string list \<Rightarrow> int \<Rightarrow> database \<Rightarrow> create_outcome \<times> database" where
  "handleCreateGroup uid userId draws new_id now name description topics maxMembers db =
     (let group = \<lparr>grp_id = new_id, grp_name = name, grp_description = description,
                    grp_topics = topics, grp_max_members = maxMembers,
                    grp_invite_code = Some (inviteCode draws), grp_created_at = now\<rparr>
      in case insert_group uid group db of
           (Some createError, db1) \<Rightarrow> (Create_error createError, db1)
         | (None, db1) \<Rightarrow>
             (case insert_group_member uid
                     \<lparr>gm_group_id = grp_id group, gm_user_id = userId, gm_joined_at = now,
                       gm_is_creator = True\<rparr> db1 of
                (Some memberError, db2) \<Rightarrow> (Member_error memberError, db2)
              | (None, db2) \<Rightarrow> (Created group, db2)))"

section \<open>The dashboard's profile fetch\<close>

text \<open>\<open>encodeURIComponent\<close> on a string of ASCII characters: letters, digits and the
  marks \<open>- _ . ! ~ * ' ( )\<close> stay, every other character becomes \<open>%\<close> and the two
  upper-case hexadecimal digits of its code.\<close>

definition uri_unreserved :: "char \<Rightarrow> bool" where
  "uri_unreserved c =
     (c \<in> set ''ABCDEFGHIJKLMNOPQRSTUVWXYZabcdefghijklmnopqrstuvwxyz0123456789-_.!~*()''
      \<or> c = CHR 0x27)"

definition hex_digit :: "nat \<Rightarrow> char" where
  "hex_digit n = ''0123456789ABCDEF'' ! n"

definition percent_encode :: "char \<Rightarrow> string" where
  "percent_encode c =
     [CHR ''%'', hex_digit (of_char c div 16), hex_digit (of_char c mod 16)]"

definition encodeURIComponent :: "string \<Rightarrow> string" where
  "encodeURIComponent s = concat (map (\<lambda>c. if uri_unreserved c then [c] else percent_encode c) s)"

text \<open>The text of the template literal from which the default avatar is generated, with
  its line breaks and indentation.\<close>

definition stickman_svg :: string where
  \<open>stickman_svg = concat
     [[CHR 0x0A],
      ''                <svg xmlns="http://www.w3.org/2000/svg" viewBox="0 0 100 100">'',
      [CHR 0x0A],
      ''                  <circle cx="50" cy="25" r="20" fill="none" stroke="currentColor" stroke-width="4"/>'',
      [CHR 0x0A],
      ''                  <line x1="50" y1="45" x2="50" y2="75" stroke="currentColor" stroke-width="4"/>'',
      [CHR 0x0A],
      ''                  <line x1="20" y1="60" x2="80" y2="60" stroke="currentColor" stroke-width="4"/>'',
      [CHR 0x0A],
      ''                  <line x1="50" y1="75" x2="30" y2="95" stroke="currentColor" stroke-width="4"/>'',
      [CHR 0x0A],
      ''                  <line x1="50" y1="75" x2="70" y2="95" stroke="currentColor" stroke-width="4"/>'',
      [CHR 0x0A],
      ''                </svg>'',
      [CHR 0x0A],
      ''              '']\<close>

definition stickman_avatar :: string where
  "stickman_avatar = ''data:image/svg+xml,'' @ encodeURIComponent stickman_svg"

text \<open>\<open>email?.split('@')[0] || 'User'\<close>: the part of the address before the first
  \<open>@\<close>, and \<open>User\<close> when there is no address or that part is empty.\<close>

definition default_name :: "string option \<Rightarrow> string" where
  "default_name email =
     (case email of
        None \<Rightarrow> ''User''
      | Some e \<Rightarrow>
          if takeWhile (\<lambda>c. c \<noteq> CHR ''@'') e \<noteq> [] then takeWhile (\<lambda>c. c \<noteq> CHR ''@'') e
          else ''User'')"

text \<open>What the fetch takes from outside the tables: the answer of \<open>auth.getUser()\<close>, and
  the values the database supplies for the columns the insert leaves out (\<open>view_code\<close>
  from its random default, \<open>created_at\<close> from \<open>now()\<close>).\<close>

record fetch_env =
  fe_getUser :: "auth_user option"
  fe_view_code :: string
  fe_now :: timestamptz

text \<open>The row that the insert of \<open>defaultProfile\<close> stores and returns.\<close>

definition defaultProfile :: "fetch_env \<Rightarrow> uuid \<Rightarrow> auth_user \<Rightarrow> user_profile" where
  \<open>defaultProfile env userId user =
     \<lparr>up_id = userId,
      up_name = default_name (au_email user),
      up_bio = ''I'm here to learn and teach'',
      up_topics = [],
      up_theme = ''dark'',
      up_created_at = fe_now env,
      up_view_code = Some (fe_view_code env),
      up_profile_picture_url = Some stickman_avatar,
      up_custom_avatar_url = None,
      up_gender = Some ''other''\<rparr>\<close>

text \<open>The block \<open>if (retryCount === 0 && !data)\<close>: without a user from \<open>getUser\<close>
  nothing is inserted; a failed insert yields no profile. The insert runs in the session
  of the user that \<open>getUser\<close> returned.\<close>

definition create_default :: "fetch_env \<Rightarrow> uuid \<Rightarrow> database \<Rightarrow> user_profile option \<times> database" where
  "create_default env userId db =
     (case fe_getUser env of
        None \<Rightarrow> (None, db)
      | Some user \<Rightarrow>
          (case insert_user_profile (Some (au_id user)) (defaultProfile env userId user) db of
             (None, db1) \<Rightarrow> (Some (defaultProfile env userId user), db1)
           | (Some insertError, db1) \<Rightarrow> (None, db1)))"

text \<open>The loop \<open>while (retryCount < maxRetries && !profile)\<close> with \<open>maxRetries = 3\<close>, from
  \<open>retryCount\<close>; the list collects the delays of the \<open>setTimeout\<close> calls. The result is
  the value of \<open>profile\<close> after the loop. The query is \<open>.maybeSingle()\<close>: without a row,
  and also with an error, \<open>data\<close> is \<open>null\<close>, so \<open>!data\<close> holds on every path that
  has not found the profile.\<close>

function fetchProfile_loop ::
  "fetch_env \<Rightarrow> uuid \<Rightarrow> nat \<Rightarrow> database \<Rightarrow> int list \<Rightarrow> user_profile option \<times> database \<times> int list" where
  "fetchProfile_loop env userId retryCount db timeouts =
     (if retryCount < 3 then
        (case maybeSingle (filter (\<lambda>p. up_id p = userId) (user_profiles db)) of
           Inr (Some data) \<Rightarrow> (Some data, db, timeouts)
         | _ \<Rightarrow>
             (if retryCount = 0 then
                (case create_default env userId db of
                   (Some newProfile, db1) \<Rightarrow> (Some newProfile, db1, timeouts)
                 | (None, db1) \<Rightarrow>
                     fetchProfile_loop env userId (Suc retryCount) db1
                       (timeouts @ [1000 * 2 ^ retryCount]))
              else fetchProfile_loop env userId (Suc retryCount) db
                     (timeouts @ [1000 * 2 ^ retryCount])))
      else (None, db, timeouts))"
  by pat_completeness auto
termination
  by (relation "measure (\<lambda>(env, userId, retryCount, db, timeouts). 3 - retryCount)") auto

declare fetchProfile_loop.simps [simp del]

record dashboard_ui =
  d_profile :: "user_profile option"
  d_body_className :: string
  d_error :: "string option"
  d_timeouts :: "int list"

text \<open>\<open>fetchProfile\<close>: with a profile it is stored, the body's class becomes
  \<open>profile.theme || 'dark'\<close> and the error is cleared; without one the thrown error is
  caught and the failure message is displayed.\<close>

definition fetchProfile :: "fetch_env \<Rightarrow> uuid \<Rightarrow> database \<Rightarrow> dashboard_ui \<Rightarrow> database \<times> dashboard_ui" where
  "fetchProfile env userId db ui =
     (case fetchProfile_loop env userId 0 db (d_timeouts ui) of
        (Some profile, db', timeouts) \<Rightarrow>
          (db', ui\<lparr>d_profile := Some profile,
                    d_body_className := (if up_theme profile \<noteq> [] then up_theme profile else ''dark''),
                    d_error := None,
                    d_timeouts := timeouts\<rparr>)
      | (None, db', timeouts) \<Rightarrow>
          (db', ui\<lparr>d_error := Some ''Failed to load profile. Please refresh the page.'',
                    d_timeouts := timeouts\<rparr>))"

section \<open>The avatar uploader\<close>

text \<open>
  \<open>handleFileUpload\<close> of the profile editor. A file has a size in bytes, a MIME type and
  its content. The canvas is modelled by its dimensions and the drawing operations applied
  to it, with exact rational coordinates. What is handed to the storage upload is either
  a file as it is or a blob that \<open>canvas.toBlob\<close> encoded, so that the two cannot be
  confused.
\<close>

record image_file =
  f_size :: nat
  f_type :: string
  f_content :: nat

datatype draw_op =
    FillRect string rat rat rat rat
  | DrawImage nat rat rat rat rat

record canvas =
  cv_width :: nat
  cv_height :: nat
  cv_ops :: "draw_op list"

datatype upload_body = File_body image_file | Canvas_blob canvas string rat

datatype upload_event =
    Alert string
  | StorageUpload string string upload_body string bool
  | Unhandled_rejection

text \<open>What the uploader takes from the browser and the backend: the dimensions of the
  decoded image (\<open>None\<close> when the image never loads, so that \<open>onload\<close> never runs),
  whether the canvas has a 2d context, whether \<open>toBlob\<close> yields a blob, the clock, the
  error of the upload if it fails, and the public URL of a stored object.\<close>

record upload_env =
  ue_image :: "image_file \<Rightarrow> (nat \<times> nat) option"
  ue_context :: bool
  ue_blob :: bool
  ue_now :: nat
  ue_upload_error :: "string option"
  ue_publicUrl :: "string \<Rightarrow> string"

text \<open>The decimal digits of \<open>Date.now()\<close> in the file name.\<close>

function decimal :: "nat \<Rightarrow> string" where
  "decimal n =
     (if n < 10 then [''0123456789'' ! n] else decimal (n div 10) @ [''0123456789'' ! (n mod 10)])"
  by pat_completeness auto
termination
  by (relation "measure id") auto

declare decimal.simps [simp del]

text \<open>The body of \<open>img.onload\<close> up to \<open>toBlob\<close>: the canvas is set to 1000 by 1000,
  filled with white, and the image is drawn scaled by
  \<open>max(canvas.width / img.width, canvas.height / img.height)\<close> and centred. For an image
  without width or height the arguments of \<open>drawImage\<close> are not finite numbers and the
  call draws nothing.\<close>

definition composite :: "image_file \<Rightarrow> nat \<Rightarrow> nat \<Rightarrow> canvas" where
  "composite f w h =
     (let scale = max (1000 / of_nat w) (1000 / of_nat h) :: rat;
          x = (1000 - of_nat w * scale) / 2;
          y = (1000 - of_nat h * scale) / 2
      in \<lparr>cv_width = 1000, cv_height = 1000,
          cv_ops = FillRect ''white'' 0 0 1000 1000
                   # (if w = 0 \<or> h = 0 then []
                      else [DrawImage (f_content f) x y (of_nat w * scale) (of_nat h * scale)])\<rparr>)"

text \<open>\<open>handleFileUpload\<close> for the user \<open>userId\<close>, the selected file (if any) and the
  profile state; the result is the list of what it did and the new profile state. The
  two checks return early. An upload error is thrown inside the asynchronous \<open>toBlob\<close>
  callback, outside the \<open>try\<close> block, and leaves the profile state as it is.\<close>

definition handleFileUpload ::
  "upload_env \<Rightarrow> string \<Rightarrow> image_file option \<Rightarrow> user_profile \<Rightarrow> upload_event list \<times> user_profile" where
  "handleFileUpload env userId selected profile =
     (case selected of
        None \<Rightarrow> ([], profile)
      | Some f \<Rightarrow>
          if f_size f > 5 * 1024 * 1024 then ([Alert ''File size must be less than 5MB''], profile)
          else if take 6 (f_type f) \<noteq> ''image/'' then ([Alert ''Only image files are allowed''], profile)
          else
            (case ue_image env f of
               None \<Rightarrow> ([], profile)
             | Some (w, h) \<Rightarrow>
                 if \<not> ue_context env then ([], profile)
                 else if \<not> ue_blob env then ([], profile)
                 else
                   (let blob = Canvas_blob (composite f w h) ''image/jpeg'' (9 / 10);
                        fileName = userId @ ''-'' @ decimal (ue_now env) @ ''.jpg'';
                        upload = StorageUpload ''avatars'' fileName blob ''image/jpeg'' True
                    in case ue_upload_error env of
                         Some error \<Rightarrow> ([upload, Unhandled_rejection], profile)
                       | None \<Rightarrow>
                           ([upload],
                            profile\<lparr>up_custom_avatar_url := Some (ue_publicUrl env fileName),
                                     up_profile_picture_url := Some (ue_publicUrl env fileName)\<rparr>))))"

text \<open>The uploads among the events of a run.\<close>

fun uploads :: "upload_event list \<Rightarrow> (string \<times> string \<times> upload_body \<times> string \<times> bool) list" where
  "uploads [] = []"
| "uploads (StorageUpload bucket name body contentType upsert # es) =
     (bucket, name, body, contentType, upsert) # uploads es"
| "uploads (e # es) = uploads es"

section \<open>Sample data\<close>

text \<open>A small database on which the theorems below are instantiated: three users, two
  groups (user 10 created group 1, user 11 created group 2 and joined group 1), messages
  and meetings of both groups, and a message of no group.\<close>

definition sample_group1 :: group_row where
  "sample_group1 = \<lparr>grp_id = 1, grp_name = ''Algebra'', grp_description = [], grp_topics = [],
     grp_max_members = 100, grp_invite_code = Some ''abc123abc123'', grp_created_at = 5\<rparr>"

definition sample_group2 :: group_row where
  "sample_group2 = \<lparr>grp_id = 2, grp_name = ''Logic'', grp_description = [], grp_topics = [],
     grp_max_members = 100, grp_invite_code = Some ''zzz999zzz999'', grp_created_at = 6\<rparr>"

definition sample_profile11 :: user_profile where
  "sample_profile11 = \<lparr>up_id = 11, up_name = ''bob'', up_bio = ''I am here to learn'',
     up_topics = [], up_theme = ''dark'', up_created_at = 1, up_view_code = Some ''VIEW0011'',
     up_profile_picture_url = None, up_custom_avatar_url = None, up_gender = Some ''other''\<rparr>"

definition sample_db :: database where
  "sample_db =
     \<lparr>auth_users = [\<lparr>au_id = 10, au_email = Some ''ada@example.org''\<rparr>,
                     \<lparr>au_id = 11, au_email = Some ''bob@example.org''\<rparr>,
                     \<lparr>au_id = 12, au_email = None\<rparr>],
      messages = [\<lparr>msg_id = 100, msg_text = ''hi'', msg_sender = ''ada@example.org'',
                     msg_created_at = 7, msg_group_id = Some 1\<rparr>,
                  \<lparr>msg_id = 101, msg_text = ''ho'', msg_sender = ''bob@example.org'',
                     msg_created_at = 8, msg_group_id = Some 2\<rparr>,
                  \<lparr>msg_id = 102, msg_text = ''hm'', msg_sender = ''system'',
                     msg_created_at = 9, msg_group_id = None\<rparr>],
      groups = [sample_group1, sample_group2],
      group_members = [\<lparr>gm_group_id = 1, gm_user_id = 10, gm_joined_at = 5, gm_is_creator = True\<rparr>,
                       \<lparr>gm_group_id = 2, gm_user_id = 11, gm_joined_at = 6, gm_is_creator = True\<rparr>,
                       \<lparr>gm_group_id = 1, gm_user_id = 11, gm_joined_at = 7, gm_is_creator = False\<rparr>],
      user_profiles = [sample_profile11],
      meetings = [\<lparr>mt_id = 200, mt_group_id = Some 1, mt_topic = ''rings'',
                     mt_jitsi_link = ''https://meet.jit.si/a'', mt_scheduled_for = 50,
                     mt_created_by = Some 10, mt_created_at = 9\<rparr>,
                  \<lparr>mt_id = 201, mt_group_id = Some 2, mt_topic = ''sets'',
                     mt_jitsi_link = ''https://meet.jit.si/b'', mt_scheduled_for = 51,
                     mt_created_by = Some 11, mt_created_at = 9\<rparr>]\<rparr>"

text \<open>For the retry helper: a world in which nothing has happened yet, an operation that
  always rejects (invocation \<open>k\<close> with the error \<open>k\<close>), one that rejects twice and then
  fulfils with 7, and a health check whose subscription succeeds.\<close>

definition fresh_world :: world where
  "fresh_world = \<lparr>calls = 0, checks = 0, isConnected = False, trace = []\<rparr>"

definition always_rejects :: "nat \<Rightarrow> (nat, nat) settled" where
  "always_rejects k = Rejected k"

definition fulfils_third :: "nat \<Rightarrow> (nat, nat) settled" where
  "fulfils_third k = (if k < 2 then Rejected k else Fulfilled 7)"

definition subscribes :: "nat \<Rightarrow> subscribe_outcome" where
  "subscribes k = Subscribe_returns ''channel'' [''SUBSCRIBED'']"

text \<open>For sign-out: a browser with the health-check timer 7, two channels and a stored
  session, and steps that all succeed.\<close>

definition sample_browser :: browser where
  "sample_browser =
     \<lparr>realtimeHealthCheck = Some 7, intervals = [7], channels = [1, 2],
      localStorage = [(''supabase.auth.token'', ''t'')], href = ''/dashboard'', log = []\<rparr>"

definition smooth_env :: "nat so_env" where
  "smooth_env =
     \<lparr>removeChannel_error = (\<lambda>c. None), storageKey = Some ''supabase.auth.token'',
      removeItem_error = (\<lambda>k. None), auth_signOut = Auth_returns None\<rparr>"

definition refused_env :: "nat so_env" where
  "refused_env =
     \<lparr>removeChannel_error = (\<lambda>c. None), storageKey = Some ''supabase.auth.token'',
      removeItem_error = (\<lambda>k. None), auth_signOut = Auth_returns (Some 401)\<rparr>"

text \<open>For the profile fetch: the answers of the backend when the session is gone, and
  when user 10 is signed in; the dashboard before the fetch.\<close>

definition signed_out_env :: fetch_env where
  "signed_out_env = \<lparr>fe_getUser = None, fe_view_code = ''q83hZk1x'', fe_now = 40\<rparr>"

definition sample_user10 :: auth_user where
  "sample_user10 = \<lparr>au_id = 10, au_email = Some ''ada@example.org''\<rparr>"

definition signed_in_env :: fetch_env where
  "signed_in_env = \<lparr>fe_getUser = Some sample_user10, fe_view_code = ''q83hZk1x'', fe_now = 40\<rparr>"

definition empty_dashboard :: dashboard_ui where
  "empty_dashboard = \<lparr>d_profile = None, d_body_className = [], d_error = None, d_timeouts = []\<rparr>"

text \<open>For the search: a signed-in client whose requests are all answered, one whose
  membership request fails, and one without a session.\<close>

definition answered_search :: search_env where
  "answered_search =
     \<lparr>se_uid = Some 10, se_profile_failure = None, se_member_failure = None,
      se_groups_failure = None\<rparr>"

definition failing_member_search :: search_env where
  "failing_member_search =
     \<lparr>se_uid = Some 10, se_profile_failure = None, se_member_failure = Some Request_failed,
      se_groups_failure = None\<rparr>"

definition closed_search :: find_person_ui where
  "closed_search = \<lparr>fp_profile = None, fp_groups = [], fp_loading = False, fp_error = None\<rparr>"

text \<open>For the uploader: a browser that decodes every image as 200 by 300 and delivers
  context and blob, a storage that accepts the upload, and three files.\<close>

definition sample_upload_env :: upload_env where
  "sample_upload_env =
     \<lparr>ue_image = (\<lambda>f. Some (200, 300)), ue_context = True, ue_blob = True, ue_now = 1700,
      ue_upload_error = None, ue_publicUrl = (\<lambda>n. ''https://cdn.example.org/avatars/'' @ n)\<rparr>"

definition small_png :: image_file where
  "small_png = \<lparr>f_size = 2048, f_type = ''image/png'', f_content = 77\<rparr>"

definition huge_png :: image_file where
  "huge_png = \<lparr>f_size = 6000000, f_type = ''image/png'', f_content = 78\<rparr>"

definition text_file :: image_file where
  "text_file = \<lparr>f_size = 2048, f_type = ''text/plain'', f_content = 79\<rparr>"

section \<open>Properties of the retry helper\<close>

subsection \<open>Unfolding the loop\<close>

lemma round_upt: "concat (map (\<lambda>k. f k) [0..<Suc j]) = f 0 @ concat (map (\<lambda>k. f (Suc k)) [0..<j])"
  by (simp only: upt_conv_Cons [of 0 "Suc j"] map_Suc_upt [symmetric]) (simp add: comp_def)

lemma retry_loop_rejected_rounds:
  "0 \<le> i \<Longrightarrow> i + int j < maxRetries \<Longrightarrow>
   (\<forall>k<j. \<exists>e. operation (calls w + k) = Rejected e) \<Longrightarrow>
   \<exists>w'. retry_loop operation subscribe maxRetries delay i w
          = retry_loop operation subscribe maxRetries delay (i + int j) w'
        \<and> calls w' = calls w + j
        \<and> trace w' = trace w @ concat (map (\<lambda>k. [Invoke, SetTimeout (delay * 2 ^ (nat i + k)), CheckRealtimeHealth]) [0..<j])"
proof (induction j arbitrary: i w)
  case 0
  show ?case by (rule exI [of _ w]) simp
next
  case (Suc j)
  from Suc.prems(3) obtain e where e: "operation (calls w) = Rejected e"
    by (metis add.right_neutral zero_less_Suc)
  define w1 where "w1 = snd (checkRealtimeHealth subscribe
                       (setTimeout (delay * 2 ^ nat i) (snd (invoke operation w))))"
  have c1: "calls w1 = Suc (calls w)"
    by (simp add: w1_def checkRealtimeHealth_def setTimeout_def invoke_def Let_def split: subscribe_outcome.split)
  have t1: "trace w1 = trace w @ [Invoke, SetTimeout (delay * 2 ^ nat i), CheckRealtimeHealth]"
    by (simp add: w1_def checkRealtimeHealth_def setTimeout_def invoke_def Let_def split: subscribe_outcome.split)
  have step: "retry_loop operation subscribe maxRetries delay i w
      = retry_loop operation subscribe maxRetries delay (i + 1) w1"
    using Suc.prems(1,2) e by (subst retry_loop.simps) (simp add: invoke_def w1_def)
  have "\<forall>k<j. \<exists>e. operation (calls w1 + k) = Rejected e"
    using Suc.prems(3) c1 by (metis Suc_less_eq add_Suc_shift)
  from Suc.IH [of "i + 1" w1, OF _ _ this] Suc.prems(1,2)
  obtain w' where w': "retry_loop operation subscribe maxRetries delay (i + 1) w1
          = retry_loop operation subscribe maxRetries delay (i + 1 + int j) w'"
      "calls w' = calls w1 + j"
      "trace w' = trace w1 @ concat (map (\<lambda>k. [Invoke, SetTimeout (delay * 2 ^ (nat (i + 1) + k)), CheckRealtimeHealth]) [0..<j])"
    by auto
  have n: "nat (i + 1) = Suc (nat i)" using Suc.prems(1) by simp
  have "trace w' = trace w @ concat (map (\<lambda>k. [Invoke, SetTimeout (delay * 2 ^ (nat i + k)), CheckRealtimeHealth]) [0..<Suc j])"
    unfolding w'(3) t1 n round_upt [of _ j] by simp
  moreover have "i + 1 + int j = i + int (Suc j)" by simp
  ultimately show ?case using step w'(1,2) c1 by (metis add_Suc_shift)
qed

lemma retry_loop_fulfilled:
  "i < maxRetries \<Longrightarrow> operation (calls w) = Fulfilled v \<Longrightarrow>
   retry_loop operation subscribe maxRetries delay i w
     = (Resolves v, w\<lparr>calls := Suc (calls w), trace := trace w @ [Invoke]\<rparr>)"
  by (subst retry_loop.simps) (simp add: invoke_def)

lemma retry_loop_last_rejected:
  "i = maxRetries - 1 \<Longrightarrow> operation (calls w) = Rejected e \<Longrightarrow>
   retry_loop operation subscribe maxRetries delay i w
     = (Rejects e, w\<lparr>calls := Suc (calls w), trace := trace w @ [Invoke]\<rparr>)"
  by (subst retry_loop.simps) (simp add: invoke_def)

lemma retryOperation_first_fulfilled:
  assumes "int j < maxRetries"
    and "\<forall>k<j. \<exists>e. operation (calls w + k) = Rejected e"
    and "operation (calls w + j) = Fulfilled v"
  shows "\<exists>w'. retryOperation operation subscribe maxRetries delay w = (Resolves v, w')
           \<and> calls w' = calls w + Suc j
           \<and> trace w' = trace w @ concat (map (\<lambda>k. [Invoke, SetTimeout (delay * 2 ^ k), CheckRealtimeHealth]) [0..<j]) @ [Invoke]"
proof -
  from retry_loop_rejected_rounds [of 0 j maxRetries operation w subscribe delay] assms(1,2)
  obtain w1 where w1: "retry_loop operation subscribe maxRetries delay 0 w
          = retry_loop operation subscribe maxRetries delay (int j) w1"
      "calls w1 = calls w + j"
      "trace w1 = trace w @ concat (map (\<lambda>k. [Invoke, SetTimeout (delay * 2 ^ k), CheckRealtimeHealth]) [0..<j])"
    by auto
  have "retry_loop operation subscribe maxRetries delay (int j) w1
     = (Resolves v, w1\<lparr>calls := Suc (calls w1), trace := trace w1 @ [Invoke]\<rparr>)"
    using assms(1,3) w1(2) by (intro retry_loop_fulfilled) simp_all
  then show ?thesis
    using w1 by (simp add: retryOperation_def)
qed

lemma retryOperation_all_rejected:
  assumes "1 \<le> maxRetries"
    and "\<forall>k<nat maxRetries - 1. \<exists>e. operation (calls w + k) = Rejected e"
    and "operation (calls w + (nat maxRetries - 1)) = Rejected e"
  shows "\<exists>w'. retryOperation operation subscribe maxRetries delay w = (Rejects e, w')
           \<and> calls w' = calls w + nat maxRetries
           \<and> trace w' = trace w @ concat (map (\<lambda>k. [Invoke, SetTimeout (delay * 2 ^ k), CheckRealtimeHealth]) [0..<nat maxRetries - 1]) @ [Invoke]"
proof -
  define j where "j = nat maxRetries - 1"
  have j: "int j = maxRetries - 1" using assms(1) by (simp add: j_def)
  from retry_loop_rejected_rounds [of 0 j maxRetries operation w subscribe delay] assms(2) j
  obtain w1 where w1: "retry_loop operation subscribe maxRetries delay 0 w
          = retry_loop operation subscribe maxRetries delay (int j) w1"
      "calls w1 = calls w + j"
      "trace w1 = trace w @ concat (map (\<lambda>k. [Invoke, SetTimeout (delay * 2 ^ k), CheckRealtimeHealth]) [0..<j])"
    by (auto simp: j_def)
  have "retry_loop operation subscribe maxRetries delay (int j) w1
     = (Rejects e, w1\<lparr>calls := Suc (calls w1), trace := trace w1 @ [Invoke]\<rparr>)"
    using j assms(3) w1(2) by (intro retry_loop_last_rejected) (simp_all add: j_def)
  moreover have "Suc j = nat maxRetries" using assms(1) by (simp add: j_def)
  ultimately show ?thesis
    using w1 by (simp add: retryOperation_def j_def)
qed

subsection \<open>The claims about the retry helper\<close>

text \<open>
  C9. With \<open>maxRetries \<le> 0\<close> the loop body never runs: the promise resolves with
  \<open>undefined\<close>, the operation is not invoked and nothing else happens either (the
  world, with its invocation counter and its trace, is unchanged).
\<close>

theorem retryOperation_nonpositive:
  "maxRetries \<le> 0 \<Longrightarrow>
     retryOperation operation subscribe maxRetries delay w = (Resolves_undefined, w)"
  by (simp add: retryOperation_def retry_loop.simps)

theorem retryOperation_nonpositive_witness:
  "(- 2 :: int) \<le> 0
   \<and> retryOperation always_rejects subscribes (- 2) 1000 fresh_world = (Resolves_undefined, fresh_world)"
  using retryOperation_nonpositive [of "- 2" always_rejects subscribes 1000 fresh_world]
  by simp

text \<open>
  C1. Let \<open>maxRetries \<ge> 1\<close>. If the first \<open>maxRetries - 1\<close> invocations of the operation
  made by this run reject and the next one fulfils with \<open>v\<close>, the helper resolves with
  \<open>v\<close> after exactly \<open>maxRetries\<close> invocations. If every invocation rejects, the helper
  rejects with the error of invocation number \<open>maxRetries\<close> (the last one), again after
  exactly \<open>maxRetries\<close> invocations. Invocations are counted by \<open>calls\<close>; the run starts
  in any world \<open>w\<close>, so its invocations are those with index \<open>calls w + k\<close>.
\<close>

theorem retryOperation_attempts:
  assumes "1 \<le> maxRetries"
  shows "((\<forall>k<nat maxRetries - 1. \<exists>e. operation (calls w + k) = Rejected e)
            \<and> operation (calls w + (nat maxRetries - 1)) = Fulfilled v
          \<longrightarrow> fst (retryOperation operation subscribe maxRetries delay w) = Resolves v
            \<and> calls (snd (retryOperation operation subscribe maxRetries delay w)) = calls w + nat maxRetries)
       \<and> ((\<forall>k<nat maxRetries. \<exists>e. operation (calls w + k) = Rejected e)
          \<longrightarrow> (\<exists>e. operation (calls w + (nat maxRetries - 1)) = Rejected e
                 \<and> fst (retryOperation operation subscribe maxRetries delay w) = Rejects e)
            \<and> calls (snd (retryOperation operation subscribe maxRetries delay w)) = calls w + nat maxRetries)"
proof (intro conjI impI)
  assume a: "(\<forall>k<nat maxRetries - 1. \<exists>e. operation (calls w + k) = Rejected e)
            \<and> operation (calls w + (nat maxRetries - 1)) = Fulfilled v"
  have "int (nat maxRetries - 1) < maxRetries" using assms by simp
  from retryOperation_first_fulfilled [OF this, of operation w v subscribe delay] a
  obtain w' where "retryOperation operation subscribe maxRetries delay w = (Resolves v, w')"
    "calls w' = calls w + Suc (nat maxRetries - 1)" by auto
  moreover have "Suc (nat maxRetries - 1) = nat maxRetries" using assms by simp
  ultimately show "fst (retryOperation operation subscribe maxRetries delay w) = Resolves v"
    and "calls (snd (retryOperation operation subscribe maxRetries delay w)) = calls w + nat maxRetries"
    by simp_all
next
  assume a: "\<forall>k<nat maxRetries. \<exists>e. operation (calls w + k) = Rejected e"
  have "nat maxRetries - 1 < nat maxRetries" using assms by simp
  with a obtain e where e: "operation (calls w + (nat maxRetries - 1)) = Rejected e" by blast
  have "\<forall>k<nat maxRetries - 1. \<exists>e. operation (calls w + k) = Rejected e" using a by simp
  from retryOperation_all_rejected [OF assms this e, of subscribe delay]
  obtain w' where w': "retryOperation operation subscribe maxRetries delay w = (Rejects e, w')"
    "calls w' = calls w + nat maxRetries" by auto
  show "\<exists>e. operation (calls w + (nat maxRetries - 1)) = Rejected e
                 \<and> fst (retryOperation operation subscribe maxRetries delay w) = Rejects e"
    using e w' by simp
  show "calls (snd (retryOperation operation subscribe maxRetries delay w)) = calls w + nat maxRetries"
    using w' by simp
qed

theorem retryOperation_attempts_witness:
  "(1::int) \<le> 3
   \<and> fst (retryOperation fulfils_third subscribes 3 1000 fresh_world) = Resolves 7
   \<and> calls (snd (retryOperation fulfils_third subscribes 3 1000 fresh_world)) = 3
   \<and> fst (retryOperation always_rejects subscribes 3 1000 fresh_world) = Rejects 2
   \<and> calls (snd (retryOperation always_rejects subscribes 3 1000 fresh_world)) = 3"
  using retryOperation_attempts [of 3 fulfils_third fresh_world 7 subscribes 1000]
        retryOperation_attempts [of 3 always_rejects fresh_world 0 subscribes 1000]
  by (simp add: fulfils_third_def always_rejects_def fresh_world_def)

lemma waits_append: "waits (xs @ ys) = waits xs @ waits ys"
  by (induction xs rule: waits.induct) simp_all

lemma waits_rounds:
  "waits (concat (map (\<lambda>k. [Invoke, SetTimeout (f k), CheckRealtimeHealth]) ks)) = map f ks"
  by (induction ks) simp_all

lemma backoff_increasing:
  "0 < delay \<Longrightarrow> sorted_wrt (<) (map (\<lambda>k. delay * 2 ^ k) [0..<m] :: int list)"
  by (rule sorted_wrt_map_mono [OF sorted_wrt_upt]) simp

text \<open>
  C7, as stated, for every base delay: the delays passed to \<open>setTimeout\<close> are claimed to
  increase strictly. With base delay 0 and an operation that always rejects, a run with
  \<open>maxRetries = 3\<close> waits 0 and then 0 milliseconds.
\<close>

theorem retryOperation_backoff_counterexample:
  "waits (events_since fresh_world (snd (retryOperation always_rejects subscribes 3 0 fresh_world)))
     = [0, 0]
   \<and> \<not> sorted_wrt (<)
         (waits (events_since fresh_world (snd (retryOperation always_rejects subscribes 3 0 fresh_world))))"
  by (simp add: retryOperation_def retry_loop.simps invoke_def setTimeout_def
      checkRealtimeHealth_def events_since_def always_rejects_def subscribes_def fresh_world_def)

lemma drop_rounds:
  "i \<le> m \<Longrightarrow>
   drop (3 * i) (concat (map (\<lambda>k. [a k, b k, c k]) [0..<m]) @ t)
     = concat (map (\<lambda>k. [a k, b k, c k]) [i..<m]) @ t"
proof (induction i)
  case 0
  then show ?case by simp
next
  case (Suc i)
  then have lt: "i < m" by simp
  have "drop (3 * Suc i) (concat (map (\<lambda>k. [a k, b k, c k]) [0..<m]) @ t)
      = drop 3 (drop (3 * i) (concat (map (\<lambda>k. [a k, b k, c k]) [0..<m]) @ t))"
    by (simp only: drop_drop mult_Suc_right)
  also have "\<dots> = drop 3 (concat (map (\<lambda>k. [a k, b k, c k]) [i..<m]) @ t)"
    using Suc.IH lt by simp
  also have "\<dots> = concat (map (\<lambda>k. [a k, b k, c k]) [Suc i..<m]) @ t"
    using lt by (simp add: upt_conv_Cons)
  finally show ?case .
qed

lemma round_then_invoke:
  assumes "i < m"
  shows "take 4 (drop (3 * i)
           (concat (map (\<lambda>k. [Invoke, SetTimeout (f k), CheckRealtimeHealth]) [0..<m]) @ [Invoke]))
         = [Invoke, SetTimeout (f i), CheckRealtimeHealth, Invoke]"
proof -
  have "drop (3 * i) (concat (map (\<lambda>k. [Invoke, SetTimeout (f k), CheckRealtimeHealth]) [0..<m]) @ [Invoke])
      = concat (map (\<lambda>k. [Invoke, SetTimeout (f k), CheckRealtimeHealth]) [i..<m]) @ [Invoke]"
    using assms by (intro drop_rounds) simp
  also have "\<dots> = [Invoke, SetTimeout (f i), CheckRealtimeHealth]
      @ (concat (map (\<lambda>k. [Invoke, SetTimeout (f k), CheckRealtimeHealth]) [Suc i..<m]) @ [Invoke])"
    using assms by (simp add: upt_conv_Cons)
  finally show ?thesis
    by (cases "Suc i < m") (simp_all add: upt_conv_Cons)
qed

lemma backoff_safe:
  assumes "max 1 \<bar>delay\<bar> * 2 ^ (n - 2) \<le> MAX_SAFE_INTEGER" and "m < n"
  shows "\<forall>ms\<in>set (map (\<lambda>k. delay * 2 ^ k) [0..<m]). \<bar>ms\<bar> \<le> MAX_SAFE_INTEGER"
proof
  fix ms assume "ms \<in> set (map (\<lambda>k. delay * 2 ^ k) [0..<m])"
  then obtain k where k: "k < m" "ms = delay * 2 ^ k" by auto
  then have "k \<le> n - 2" using assms(2) by simp
  then have "(2::int) ^ k \<le> 2 ^ (n - 2)" by (intro power_increasing) simp_all
  then have "\<bar>delay\<bar> * 2 ^ k \<le> max 1 \<bar>delay\<bar> * 2 ^ (n - 2)" by (intro mult_mono) simp_all
  then show "\<bar>ms\<bar> \<le> MAX_SAFE_INTEGER"
    using assms(1) k(2) by (simp add: abs_mult)
qed

text \<open>Every run has its number \<open>m\<close> of rounds: the attempts before the first fulfilled
  one, or all but the last of the \<open>maxRetries\<close> attempts when none of these is
  fulfilled.\<close>

lemma backoff_rounds_exist:
  assumes "1 \<le> maxRetries"
  shows "\<exists>m<nat maxRetries.
           (\<forall>k<m. \<exists>e. operation (k0 + k) = Rejected e)
         \<and> (m = nat maxRetries - 1 \<or> (\<exists>v. operation (k0 + m) = Fulfilled v))"
proof (cases "\<forall>k<nat maxRetries - 1. \<exists>e. operation (k0 + k) = Rejected e")
  case True
  then show ?thesis using assms by (intro exI [of _ "nat maxRetries - 1"]) simp
next
  case False
  let ?R = "\<lambda>k. \<exists>e. operation (k0 + k) = Rejected e"
  define j where "j = (LEAST k. \<not> ?R k)"
  from False obtain i where i: "i < nat maxRetries - 1" "\<not> ?R i" by blast
  have nj: "\<not> ?R j" unfolding j_def using i(2) by (rule LeastI)
  have jle: "j \<le> i" unfolding j_def using i(2) by (rule Least_le)
  have before: "\<forall>k<j. ?R k" unfolding j_def using not_less_Least by blast
  from nj obtain v where "operation (k0 + j) = Fulfilled v"
    by (cases "operation (k0 + j)") auto
  then show ?thesis using before jle i(1) by (intro exI [of _ j]) auto
qed

text \<open>
  C7, amended. Let \<open>maxRetries \<ge> 1\<close> and let the delays stay among the integers on which
  the program's arithmetic is exact (\<open>max 1 |delay| * 2 ^ (maxRetries - 2)\<close> is at most
  \<open>Number.MAX_SAFE_INTEGER\<close>). Let the first \<open>m\<close> attempts of the run be rejected, where
  attempt \<open>m\<close> is the first fulfilled one, or \<open>m = maxRetries - 1\<close>. Then the run makes
  exactly \<open>m + 1\<close> attempts, and each failed attempt \<open>i < m\<close> is followed by a
  \<open>setTimeout\<close> of exactly \<open>delay * 2 ^ i\<close> milliseconds, then exactly one health check,
  then the next attempt; nothing else happens. So the waits are
  \<open>delay, 2 * delay, 4 * delay, ...\<close>, one per failed attempt but the last of
  \<open>maxRetries\<close>; they increase strictly when \<open>delay > 0\<close>.
\<close>

theorem retryOperation_backoff:
  assumes "1 \<le> maxRetries"
    and "max 1 \<bar>delay\<bar> * 2 ^ (nat maxRetries - 2) \<le> MAX_SAFE_INTEGER"
    and "m < nat maxRetries"
    and "\<forall>k<m. \<exists>e. operation (calls w + k) = Rejected e"
    and "m = nat maxRetries - 1 \<or> (\<exists>v. operation (calls w + m) = Fulfilled v)"
  shows "calls (snd (retryOperation operation subscribe maxRetries delay w)) = calls w + Suc m
       \<and> events_since w (snd (retryOperation operation subscribe maxRetries delay w))
           = concat (map (\<lambda>k. [Invoke, SetTimeout (delay * 2 ^ k), CheckRealtimeHealth]) [0..<m])
             @ [Invoke]
       \<and> (\<forall>i<m. take 4 (drop (3 * i)
                    (events_since w (snd (retryOperation operation subscribe maxRetries delay w))))
                  = [Invoke, SetTimeout (delay * 2 ^ i), CheckRealtimeHealth, Invoke])
       \<and> waits (events_since w (snd (retryOperation operation subscribe maxRetries delay w)))
           = map (\<lambda>k. delay * 2 ^ k) [0..<m]
       \<and> (\<forall>ms\<in>set (waits (events_since w (snd (retryOperation operation subscribe maxRetries delay w)))).
             \<bar>ms\<bar> \<le> MAX_SAFE_INTEGER)
       \<and> (0 < delay \<longrightarrow>
            sorted_wrt (<)
              (waits (events_since w (snd (retryOperation operation subscribe maxRetries delay w)))))"
proof -
  let ?run = "retryOperation operation subscribe maxRetries delay w"
  let ?shape = "concat (map (\<lambda>k. [Invoke, SetTimeout (delay * 2 ^ k), CheckRealtimeHealth]) [0..<m])
                  @ [Invoke]"
  have run: "calls (snd ?run) = calls w + Suc m \<and> trace (snd ?run) = trace w @ ?shape"
  proof (cases "operation (calls w + m)")
    case (Fulfilled v)
    have "int m < maxRetries" using assms(3) by simp
    from retryOperation_first_fulfilled [OF this assms(4) Fulfilled, of subscribe delay]
    show ?thesis by auto
  next
    case (Rejected e)
    with assms(5) have m: "m = nat maxRetries - 1" by simp
    from retryOperation_all_rejected [OF assms(1), of operation w e subscribe delay]
      assms(4) Rejected
    obtain w' where "?run = (Rejects e, w')" "calls w' = calls w + nat maxRetries"
      "trace w' = trace w @ ?shape" unfolding m by auto
    moreover have "Suc m = nat maxRetries" using assms(1) m by simp
    ultimately show ?thesis by simp
  qed
  have ev: "events_since w (snd ?run) = ?shape"
    using run by (simp add: events_since_def)
  have wt: "waits (events_since w (snd ?run)) = map (\<lambda>k. delay * 2 ^ k) [0..<m]"
    unfolding ev by (simp add: waits_append waits_rounds)
  have each: "\<forall>i<m. take 4 (drop (3 * i) (events_since w (snd ?run)))
                  = [Invoke, SetTimeout (delay * 2 ^ i), CheckRealtimeHealth, Invoke]"
    unfolding ev using round_then_invoke [of _ m "\<lambda>k. delay * 2 ^ k"] by blast
  have safe: "\<forall>ms\<in>set (waits (events_since w (snd ?run))). \<bar>ms\<bar> \<le> MAX_SAFE_INTEGER"
    unfolding wt using assms(2,3) by (rule backoff_safe)
  have inc: "sorted_wrt (<) (waits (events_since w (snd ?run)))" if "0 < delay"
    unfolding wt using that by (rule backoff_increasing)
  show ?thesis
    using run ev each wt safe inc by blast
qed

theorem retryOperation_backoff_witness:
  "(1::int) \<le> 3
   \<and> max 1 \<bar>1000\<bar> * 2 ^ (nat 3 - 2) \<le> MAX_SAFE_INTEGER
   \<and> events_since fresh_world (snd (retryOperation always_rejects subscribes 3 1000 fresh_world))
      = [Invoke, SetTimeout 1000, CheckRealtimeHealth, Invoke, SetTimeout 2000, CheckRealtimeHealth,
         Invoke]
   \<and> waits (events_since fresh_world (snd (retryOperation always_rejects subscribes 3 1000 fresh_world)))
      = [1000, 2000]
   \<and> sorted_wrt (<)
        (waits (events_since fresh_world (snd (retryOperation always_rejects subscribes 3 1000 fresh_world))))
   \<and> events_since fresh_world (snd (retryOperation fulfils_third subscribes 5 1000 fresh_world))
      = [Invoke, SetTimeout 1000, CheckRealtimeHealth, Invoke, SetTimeout 2000, CheckRealtimeHealth,
         Invoke]"
  using retryOperation_backoff [of 3 1000 2 always_rejects fresh_world subscribes]
        retryOperation_backoff [of 5 1000 2 fulfils_third fresh_world subscribes]
  by (simp add: always_rejects_def fulfils_third_def fresh_world_def MAX_SAFE_INTEGER_def
      upt_conv_Cons)

section \<open>Properties of sign-out\<close>

lemma filter_removeAll:
  "filter P (removeAll c xs) = filter (\<lambda>x. x \<noteq> c \<and> P x) xs"
  by (induction xs) auto

lemma removeChannels_ok:
  "\<forall>c\<in>set cs. err c = None \<Longrightarrow>
   removeChannels err cs b
     = (None, b\<lparr>channels := filter (\<lambda>c. c \<notin> set cs) (channels b),
                log := log b @ map RemoveChannel cs\<rparr>)"
proof (induction cs arbitrary: b)
  case Nil
  then show ?case by simp
next
  case (Cons c cs)
  then show ?case by (simp add: filter_removeAll)
qed

lemma removeChannels_throws:
  "find (\<lambda>c. err c \<noteq> None) cs = Some c \<Longrightarrow>
   \<exists>b' pre. removeChannels err cs b = (err c, b') \<and> err c \<noteq> None
      \<and> log b' = log b @ map RemoveChannel pre"
proof (induction cs arbitrary: b)
  case Nil
  then show ?case by simp
next
  case (Cons x cs)
  show ?case
  proof (cases "err x")
    case None
    with Cons.prems have f: "find (\<lambda>c. err c \<noteq> None) cs = Some c" by simp
    from Cons.IH [OF f, of "b\<lparr>channels := removeAll x (channels b), log := log b @ [RemoveChannel x]\<rparr>"]
    obtain b' pre where "removeChannels err cs (b\<lparr>channels := removeAll x (channels b), log := log b @ [RemoveChannel x]\<rparr>) = (err c, b')"
      "err c \<noteq> None" "log b' = (log b @ [RemoveChannel x]) @ map RemoveChannel pre" by auto
    then show ?thesis using None
      by (intro exI [of _ b'] exI [of _ "x # pre"]) simp
  next
    case (Some e)
    with Cons.prems have "c = x" by simp
    then show ?thesis using Some
      by (intro exI [of _ "b\<lparr>log := log b @ [RemoveChannel x]\<rparr>"] exI [of _ "[x]"]) simp
  qed
qed

lemma cleanup_ok:
  "\<forall>c\<in>set (channels b). err c = None \<Longrightarrow>
   \<exists>b'. cleanup err b = (None, b') \<and> log b' = log b @ cleanup_events b \<and> channels b' = []"
  unfolding cleanup_def
  by (subst removeChannels_ok)
     (auto simp: clearHealthCheck_def cleanup_events_def split: option.splits)

lemma log_clearHealthCheck:
  "log (clearHealthCheck b)
     = log b @ (case realtimeHealthCheck b of None \<Rightarrow> [] | Some t \<Rightarrow> if t \<noteq> 0 then [ClearInterval t] else [])"
  by (simp add: clearHealthCheck_def split: option.splits)

lemma cleanup_throws:
  "find (\<lambda>c. err c \<noteq> None) (channels b) = Some c \<Longrightarrow>
   \<exists>b' evs. cleanup err b = (err c, b') \<and> err c \<noteq> None \<and> log b' = log b @ evs
      \<and> AuthSignOut \<notin> set evs"
proof -
  assume f: "find (\<lambda>c. err c \<noteq> None) (channels b) = Some c"
  have ch: "channels (clearHealthCheck b) = channels b"
    by (simp add: clearHealthCheck_def split: option.splits)
  define pre0 where
    "pre0 = (case realtimeHealthCheck b of None \<Rightarrow> [] | Some t \<Rightarrow> if t \<noteq> 0 then [ClearInterval t] else [])"
  have l0: "log (clearHealthCheck b) = log b @ pre0" "AuthSignOut \<notin> set pre0"
    by (simp_all add: pre0_def log_clearHealthCheck split: option.splits)
  from removeChannels_throws [of err "channels b" c "clearHealthCheck b"] f
  obtain b' pre where r: "removeChannels err (channels b) (clearHealthCheck b) = (err c, b')"
    "err c \<noteq> None" "log b' = log (clearHealthCheck b) @ map RemoveChannel pre" by blast
  have "AuthSignOut \<notin> set (pre0 @ map RemoveChannel pre)" using l0(2) by auto
  then show ?thesis
    using r l0 unfolding cleanup_def ch
    by (intro exI [of _ b'] exI [of _ "pre0 @ map RemoveChannel pre"]) simp
qed

lemma signOut_cleanup_throws:
  assumes "find (\<lambda>c. removeChannel_error env c \<noteq> None) (channels b) = Some c"
  shows "fst (signOut env b) = Resolves (first_error env b)
       \<and> AuthSignOut \<notin> set (so_events b (snd (signOut env b)))"
proof -
  from cleanup_throws [OF assms]
  obtain b' evs e where c: "cleanup (removeChannel_error env) b = (Some e, b')"
    "removeChannel_error env c = Some e" "log b' = log b @ evs" "AuthSignOut \<notin> set evs"
    by (metis not_None_eq)
  have "signOut env b = (Resolves (Some e), b'\<lparr>log := log b' @ [ConsoleError]\<rparr>)"
    by (simp add: signOut_def signOut_try_def c(1))
  then show ?thesis
    using assms c by (simp add: first_error_def so_events_def)
qed

lemma signOut_cleanup_ok:
  assumes "find (\<lambda>c. removeChannel_error env c \<noteq> None) (channels b) = None"
  shows "fst (signOut env b) = Resolves (first_error env b)
       \<and> (\<exists>rest. so_events b (snd (signOut env b)) = cleanup_events b @ rest)"
proof -
  have "\<forall>c\<in>set (channels b). removeChannel_error env c = None"
    using assms by (simp add: find_None_iff)
  from cleanup_ok [OF this]
  obtain b1 where c: "cleanup (removeChannel_error env) b = (None, b1)"
    "log b1 = log b @ cleanup_events b" by blast
  show ?thesis
    using assms c
    by (simp add: signOut_def signOut_try_def first_error_def so_events_def removeItem_def
        split: option.splits auth_outcome.splits)
qed

text \<open>
  C10. \<open>signOut\<close> never rejects: whatever the steps do, the promise resolves, with
  \<open>{ error: e }\<close> for the first error \<open>e\<close> thrown in the order of the steps (or returned
  by the provider's sign-out), and with \<open>{ error: null }\<close> when there is none; in
  particular with \<open>{ error: null }\<close> when removing the channels, clearing local storage
  and the provider's sign-out all succeed. Whenever the provider's sign-out is attempted,
  the events of the run start with the complete cleanup (the interval cleared, every
  channel removed), so the cleanup has run before.
\<close>

theorem signOut_never_rejects:
  "(\<exists>r. fst (signOut env b) = Resolves r)
   \<and> fst (signOut env b) = Resolves (first_error env b)
   \<and> ((\<forall>c\<in>set (channels b). removeChannel_error env c = None)
        \<and> (\<forall>key. removeItem_error env key = None)
        \<and> auth_signOut env = Auth_returns None
      \<longrightarrow> fst (signOut env b) = Resolves None)
   \<and> (AuthSignOut \<in> set (so_events b (snd (signOut env b)))
      \<longrightarrow> (\<exists>rest. so_events b (snd (signOut env b)) = cleanup_events b @ rest
                 \<and> AuthSignOut \<in> set rest))"
proof -
  have r: "fst (signOut env b) = Resolves (first_error env b)"
    using signOut_cleanup_throws [of env b] signOut_cleanup_ok [of env b]
    by (cases "find (\<lambda>c. removeChannel_error env c \<noteq> None) (channels b)") auto
  have ok: "first_error env b = None"
    if "\<forall>c\<in>set (channels b). removeChannel_error env c = None"
      "\<forall>key. removeItem_error env key = None" "auth_signOut env = Auth_returns None"
  proof -
    have "find (\<lambda>c. removeChannel_error env c \<noteq> None) (channels b) = None"
      using that(1) by (simp add: find_None_iff)
    then show ?thesis using that(2,3) by (simp add: first_error_def split: option.splits)
  qed
  have ord: "\<exists>rest. so_events b (snd (signOut env b)) = cleanup_events b @ rest \<and> AuthSignOut \<in> set rest"
    if a: "AuthSignOut \<in> set (so_events b (snd (signOut env b)))"
  proof (cases "find (\<lambda>c. removeChannel_error env c \<noteq> None) (channels b)")
    case None
    from signOut_cleanup_ok [OF None]
    obtain rest where rest: "so_events b (snd (signOut env b)) = cleanup_events b @ rest" by blast
    have "AuthSignOut \<notin> set (cleanup_events b)"
      by (auto simp: cleanup_events_def split: option.splits)
    with a rest show ?thesis by auto
  next
    case (Some c)
    from signOut_cleanup_throws [OF Some] a show ?thesis by simp
  qed
  show ?thesis using r ok ord by simp
qed

theorem signOut_never_rejects_witness:
  "fst (signOut smooth_env sample_browser) = Resolves None
   \<and> so_events sample_browser (snd (signOut smooth_env sample_browser))
     = [ClearInterval 7, RemoveChannel 1, RemoveChannel 2, RemoveItem ''supabase.auth.token'',
        AuthSignOut, RemoveItem ''supabase.auth.token'', RemoveItem ''supabase.auth.refreshToken'',
        Redirect ''/'']
   \<and> fst (signOut refused_env sample_browser) = Resolves (Some 401)
   \<and> so_events sample_browser (snd (signOut refused_env sample_browser))
     = [ClearInterval 7, RemoveChannel 1, RemoveChannel 2, RemoveItem ''supabase.auth.token'',
        AuthSignOut, ConsoleError]"
  using signOut_never_rejects [of smooth_env sample_browser]
        signOut_never_rejects [of refused_env sample_browser]
  by (simp add: signOut_def signOut_try_def cleanup_def clearHealthCheck_def removeItem_def
      so_events_def first_error_def smooth_env_def refused_env_def sample_browser_def)

section \<open>Properties of the schema and of the components on it\<close>

subsection \<open>Deleting a group\<close>

text \<open>
  C2. Deleting a group \<open>g\<close> that the acting user may delete removes the group row and,
  from \<open>messages\<close>, \<open>group_members\<close> and \<open>meetings\<close>, exactly the rows whose group id is
  the id of \<open>g\<close>: each of the three tables is afterwards the old table without those
  rows, in the old order, so every row of another group (or of none) is still there.
\<close>

theorem delete_group_cascade:
  assumes "g \<in> set (groups db)" and "creator_can_delete uid g db"
  shows "messages (delete_group uid (grp_id g) db)
           = filter (\<lambda>m. msg_group_id m \<noteq> Some (grp_id g)) (messages db)
       \<and> group_members (delete_group uid (grp_id g) db)
           = filter (\<lambda>m. gm_group_id m \<noteq> grp_id g) (group_members db)
       \<and> meetings (delete_group uid (grp_id g) db)
           = filter (\<lambda>m. mt_group_id m \<noteq> Some (grp_id g)) (meetings db)
       \<and> groups (delete_group uid (grp_id g) db)
           = filter (\<lambda>r. grp_id r \<noteq> grp_id g) (groups db)"
proof -
  have "find (\<lambda>r. grp_id r = grp_id g \<and> creator_can_delete uid r db) (groups db) \<noteq> None"
    using assms by (auto simp: find_None_iff)
  then obtain old where old: "find (\<lambda>r. grp_id r = grp_id g \<and> creator_can_delete uid r db) (groups db) = Some old"
    by blast
  then have "grp_id old = grp_id g"
    by (auto simp: find_Some_iff)
  with old show ?thesis
    by (simp add: delete_group_def handle_group_deletion_def on_delete_cascade_def Let_def)
qed

theorem delete_group_cascade_witness:
  "sample_group1 \<in> set (groups sample_db) \<and> creator_can_delete (Some 10) sample_group1 sample_db
   \<and> map msg_id (messages (delete_group (Some 10) 1 sample_db)) = [101, 102]
   \<and> map gm_group_id (group_members (delete_group (Some 10) 1 sample_db)) = [2]
   \<and> map mt_id (meetings (delete_group (Some 10) 1 sample_db)) = [201]
   \<and> map grp_id (groups (delete_group (Some 10) 1 sample_db)) = [2]"
  using delete_group_cascade [of sample_group1 sample_db "Some 10"]
  by (simp add: sample_db_def sample_group1_def sample_group2_def creator_can_delete_def)

subsection \<open>Joining a group\<close>

lemma insert_group_member_distinct:
  "distinct (map (\<lambda>m. (gm_group_id m, gm_user_id m)) (group_members db)) \<Longrightarrow>
   distinct (map (\<lambda>m. (gm_group_id m, gm_user_id m))
      (group_members (snd (insert_group_member uid row db))))"
  by (auto simp: insert_group_member_def)

text \<open>
  C5. Let exactly one group \<open>g\<close> have the invite code and let the user, who is signed in
  and registered, have no membership row of \<open>g\<close> yet. The first join succeeds and appends
  exactly one row \<open>(g.id, user)\<close> to \<open>group_members\<close>. A repeated join with the same
  code fails with a unique violation and leaves the database as it is, with still exactly
  one row for \<open>(g.id, user)\<close>. No join by anyone makes two rows with the same
  \<open>(group_id, user_id)\<close> out of a table that had none.
\<close>

theorem join_group_once:
  assumes "filter (\<lambda>r. grp_invite_code r = Some code) (groups db) = [g]"
    and "userId \<in> au_id ` set (auth_users db)"
    and "memberships (grp_id g) userId db = []"
  shows "fst (join_group (Some userId) userId code now db) = None
       \<and> group_members (snd (join_group (Some userId) userId code now db))
           = group_members db
             @ [\<lparr>gm_group_id = grp_id g, gm_user_id = userId, gm_joined_at = now, gm_is_creator = False\<rparr>]
       \<and> length (memberships (grp_id g) userId (snd (join_group (Some userId) userId code now db))) = 1
       \<and> fst (join_group (Some userId) userId code now'
                (snd (join_group (Some userId) userId code now db))) = Some Unique_violation
       \<and> snd (join_group (Some userId) userId code now'
                (snd (join_group (Some userId) userId code now db)))
           = snd (join_group (Some userId) userId code now db)
       \<and> (distinct (map (\<lambda>m. (gm_group_id m, gm_user_id m)) (group_members db'))
          \<longrightarrow> distinct (map (\<lambda>m. (gm_group_id m, gm_user_id m))
                (group_members (snd (join_group uid' userId' code' now'' db')))))"
proof -
  let ?row = "\<lparr>gm_group_id = grp_id g, gm_user_id = userId, gm_joined_at = now, gm_is_creator = False\<rparr>"
  let ?db1 = "db\<lparr>group_members := group_members db @ [?row]\<rparr>"
  have gin: "g \<in> set (groups db)"
  proof -
    have "g \<in> set (filter (\<lambda>r. grp_invite_code r = Some code) (groups db))"
      unfolding assms(1) by simp
    then show ?thesis by simp
  qed
  have none: "\<not> (\<exists>m\<in>set (group_members db). gm_group_id m = grp_id g \<and> gm_user_id m = userId)"
    using assms(3) by (auto simp: memberships_def filter_empty_conv)
  have first: "join_group (Some userId) userId code now db = (None, ?db1)"
    using assms(1,2) gin none by (simp add: join_group_def insert_group_member_def)
  have second: "join_group (Some userId) userId code now' ?db1 = (Some Unique_violation, ?db1)"
    using assms(1) by (simp add: join_group_def insert_group_member_def)
  have cnt: "length (memberships (grp_id g) userId ?db1) = 1"
    using assms(3) by (simp add: memberships_def)
  have dist: "distinct (map (\<lambda>m. (gm_group_id m, gm_user_id m))
                (group_members (snd (join_group uid' userId' code' now'' db'))))"
    if "distinct (map (\<lambda>m. (gm_group_id m, gm_user_id m)) (group_members db'))"
    using that insert_group_member_distinct [of db']
    by (simp add: join_group_def split: sum.split)
  show ?thesis
    unfolding first second fst_conv snd_conv using cnt dist by simp
qed

theorem join_group_once_witness:
  "map grp_invite_code (groups sample_db) = [Some ''abc123abc123'', Some ''zzz999zzz999'']
   \<and> 10 \<in> au_id ` set (auth_users sample_db)
   \<and> memberships (grp_id sample_group2) 10 sample_db = []
   \<and> map gm_user_id (memberships 2 10 (snd (join_group (Some 10) 10 ''zzz999zzz999'' 20 sample_db))) = [10]
   \<and> fst (join_group (Some 10) 10 ''zzz999zzz999'' 21
             (snd (join_group (Some 10) 10 ''zzz999zzz999'' 20 sample_db))) = Some Unique_violation
   \<and> length (memberships 2 10 (snd (join_group (Some 10) 10 ''zzz999zzz999'' 21
             (snd (join_group (Some 10) 10 ''zzz999zzz999'' 20 sample_db))))) = 1"
  using join_group_once [of "''zzz999zzz999''" sample_db sample_group2 10 20 21]
  by (simp add: sample_db_def sample_group1_def sample_group2_def memberships_def)

subsection \<open>Finding a person by view code\<close>

text \<open>
  C3, as stated, for every search of a view code that exactly one stored profile has: the
  displayed groups are claimed to be exactly the groups of that profile. The profile with
  the view code \<open>VIEW0011\<close> has membership rows of the groups 1 and 2; when the request
  for the membership rows fails, the profile is displayed with no group and no error.
\<close>

theorem handleSearch_counterexample:
  "map up_view_code (user_profiles sample_db) = [Some ''VIEW0011'']
   \<and> map gm_group_id (memberships 1 11 sample_db @ memberships 2 11 sample_db) = [1, 2]
   \<and> fp_profile (handleSearch failing_member_search ''VIEW0011'' sample_db closed_search)
       = Some sample_profile11
   \<and> fp_groups (handleSearch failing_member_search ''VIEW0011'' sample_db closed_search) = []
   \<and> fp_error (handleSearch failing_member_search ''VIEW0011'' sample_db closed_search) = None"
  by (simp add: handleSearch_def single_of_def select_where_def visible_group_members_def
      failing_member_search_def closed_search_def memberships_def sample_db_def
      sample_profile11_def sample_group1_def sample_group2_def)

text \<open>
  C3, amended. If exactly one stored profile \<open>p\<close> has the view code \<open>c\<close> and the request
  for it is answered, \<open>handleSearch\<close> displays \<open>p\<close> and no error; if moreover the client
  is signed in and the requests for the membership rows and for the groups are answered,
  it displays exactly the groups of which \<open>p\<close> has a membership row (in the order of the
  \<open>groups\<close> table). If no stored profile has the view code, it displays the error
  \<open>User not found\<close> and leaves the displayed profile and the displayed groups empty,
  whatever the requests do.
\<close>

theorem handleSearch_by_view_code:
  "(filter (\<lambda>q. up_view_code q = Some c) (user_profiles db) = [p]
      \<and> se_profile_failure env = None
      \<longrightarrow> fp_profile (handleSearch env c db ui) = Some p
        \<and> fp_error (handleSearch env c db ui) = None
        \<and> (se_uid env \<noteq> None \<and> se_member_failure env = None \<and> se_groups_failure env = None
           \<longrightarrow> fp_groups (handleSearch env c db ui)
               = filter (\<lambda>g. \<exists>m\<in>set (group_members db).
                                gm_user_id m = up_id p \<and> gm_group_id m = grp_id g)
                   (groups db)))
   \<and> (filter (\<lambda>q. up_view_code q = Some c) (user_profiles db) = []
      \<longrightarrow> fp_error (handleSearch env c db ui) = Some ''User not found''
        \<and> fp_profile (handleSearch env c db ui) = None
        \<and> fp_groups (handleSearch env c db ui) = [])"
proof (intro conjI impI)
  assume one: "filter (\<lambda>q. up_view_code q = Some c) (user_profiles db) = [p]
      \<and> se_profile_failure env = None"
  then have prof: "single_of (select_where (se_profile_failure env)
        (\<lambda>q. up_view_code q = Some c) (user_profiles db)) = Inr p"
    by (simp add: single_of_def select_where_def)
  show "fp_profile (handleSearch env c db ui) = Some p"
    by (simp add: handleSearch_def prof Let_def split: sum.split)
  show "fp_error (handleSearch env c db ui) = None"
    by (simp add: handleSearch_def prof Let_def split: sum.split)
  assume ok: "se_uid env \<noteq> None \<and> se_member_failure env = None \<and> se_groups_failure env = None"
  then have vis: "visible_group_members (se_uid env) db = group_members db"
    and answered: "se_member_failure env = None" "se_groups_failure env = None"
    by (auto simp: visible_group_members_def)
  let ?mine = "filter (\<lambda>m. gm_user_id m = up_id p) (group_members db)"
  have same: "(\<lambda>g. grp_id g \<in> set (map gm_group_id ?mine))
      = (\<lambda>g. \<exists>m\<in>set (group_members db). gm_user_id m = up_id p \<and> gm_group_id m = grp_id g)"
    by (intro ext) (force simp: image_iff)
  have empty: "filter (\<lambda>g. \<exists>m\<in>set (group_members db). gm_user_id m = up_id p \<and> gm_group_id m = grp_id g)
      (groups db) = []" if "?mine = []"
    using that by (auto simp: filter_empty_conv)
  show "fp_groups (handleSearch env c db ui)
            = filter (\<lambda>g. \<exists>m\<in>set (group_members db). gm_user_id m = up_id p \<and> gm_group_id m = grp_id g)
                (groups db)"
  proof (cases "?mine = []")
    case True
    with one answered empty show ?thesis
      by (simp add: handleSearch_def single_of_def select_where_def vis Let_def)
  next
    case False
    with one answered show ?thesis
      unfolding same [symmetric]
      by (simp add: handleSearch_def single_of_def select_where_def vis Let_def)
  qed
next
  assume none: "filter (\<lambda>q. up_view_code q = Some c) (user_profiles db) = []"
  then have prof: "\<exists>e. single_of (select_where (se_profile_failure env)
        (\<lambda>q. up_view_code q = Some c) (user_profiles db)) = Inl e"
    by (simp add: single_of_def select_where_def split: option.split)
  then show "fp_error (handleSearch env c db ui) = Some ''User not found''"
    and "fp_profile (handleSearch env c db ui) = None"
    and "fp_groups (handleSearch env c db ui) = []"
    by (auto simp: handleSearch_def Let_def)
qed

theorem handleSearch_by_view_code_witness:
  "map up_view_code (user_profiles sample_db) = [Some ''VIEW0011'']
   \<and> se_uid answered_search = Some 10
   \<and> fp_profile (handleSearch answered_search ''VIEW0011'' sample_db closed_search) = Some sample_profile11
   \<and> map grp_id (fp_groups (handleSearch answered_search ''VIEW0011'' sample_db closed_search)) = [1, 2]
   \<and> fp_error (handleSearch answered_search ''VIEW0011'' sample_db closed_search) = None
   \<and> fp_error (handleSearch answered_search ''NOSUCH00'' sample_db closed_search) = Some ''User not found''
   \<and> fp_profile (handleSearch answered_search ''NOSUCH00'' sample_db closed_search) = None"
  using handleSearch_by_view_code [of "''VIEW0011''" sample_db sample_profile11 answered_search closed_search]
        handleSearch_by_view_code [of "''NOSUCH00''" sample_db sample_profile11 answered_search closed_search]
  by (simp add: sample_db_def sample_profile11_def sample_group1_def sample_group2_def
      answered_search_def)

subsection \<open>Creating a group\<close>

lemma toString36_digit: "n < 36 \<Longrightarrow> toString36 n = [digit36 n]"
  by (subst toString36.simps) simp

lemma toString36_nonempty: "toString36 n \<noteq> []"
  by (subst toString36.simps) simp

lemma inviteCode_nonempty: "inviteCode draws \<noteq> []"
  by (simp add: inviteCode_def upt_conv_Cons [of 0 12] toString36_nonempty)

lemma inviteCode_digits:
  assumes "\<forall>k<12. draws k < 36"
  shows "inviteCode draws = map (\<lambda>k. digit36 (draws k)) [0..<12]"
proof -
  have "map (\<lambda>k. toString36 (draws k)) [0..<12] = map (\<lambda>k. [digit36 (draws k)]) [0..<12]"
    using assms by (intro map_cong) (simp_all add: toString36_digit)
  then show ?thesis
    unfolding inviteCode_def by (simp only: concat_map_singleton)
qed

lemma inviteCode_sample: "inviteCode (\<lambda>k. k) = ''0123456789ab''"
  by (simp add: inviteCode_digits digit36_def upt_rec)

text \<open>
  C4. When \<open>handleCreateGroup\<close> runs to its end (both inserts succeed), the created
  group carries the generated invite code, which is not empty (and has exactly twelve
  characters when every draw is below 36) and differs from the invite code of every
  group that existed before; the group is the one row added to \<open>groups\<close>, and exactly
  one row is added to \<open>group_members\<close>: the one of the new group and the creating
  user, with \<open>is_creator = true\<close>.
\<close>

theorem handleCreateGroup_created:
  assumes "handleCreateGroup uid userId draws new_id now name description topics maxMembers db
             = (Created g, db')"
  shows "grp_invite_code g = Some (inviteCode draws)
       \<and> inviteCode draws \<noteq> []
       \<and> ((\<forall>k<12. draws k < 36) \<longrightarrow> length (inviteCode draws) = 12)
       \<and> (\<forall>g'\<in>set (groups db). grp_invite_code g' \<noteq> grp_invite_code g)
       \<and> groups db' = groups db @ [g]
       \<and> group_members db'
           = group_members db
             @ [\<lparr>gm_group_id = grp_id g, gm_user_id = userId, gm_joined_at = now, gm_is_creator = True\<rparr>]"
proof -
  let ?group = "\<lparr>grp_id = new_id, grp_name = name, grp_description = description,
                    grp_topics = topics, grp_max_members = maxMembers,
                    grp_invite_code = Some (inviteCode draws), grp_created_at = now\<rparr>"
  let ?row = "\<lparr>gm_group_id = new_id, gm_user_id = userId, gm_joined_at = now, gm_is_creator = True\<rparr>"
  from assms have i1: "insert_group uid ?group db = (None, db\<lparr>groups := groups db @ [?group]\<rparr>)"
    by (auto simp: handleCreateGroup_def insert_group_def Let_def split: if_splits)
  with assms have i2: "insert_group_member uid ?row (db\<lparr>groups := groups db @ [?group]\<rparr>)
      = (None, db\<lparr>groups := groups db @ [?group], group_members := group_members db @ [?row]\<rparr>)"
    by (auto simp: handleCreateGroup_def insert_group_member_def Let_def split: if_splits)
  from i1 i2
  have run: "handleCreateGroup uid userId draws new_id now name description topics maxMembers db
      = (Created ?group, db\<lparr>groups := groups db @ [?group], group_members := group_members db @ [?row]\<rparr>)"
    by (simp add: handleCreateGroup_def Let_def)
  have both: "Created ?group = Created g
      \<and> db\<lparr>groups := groups db @ [?group], group_members := group_members db @ [?row]\<rparr> = db'"
    using assms unfolding run by (simp only: prod.inject)
  have g: "g = ?group"
    using both by (simp only: create_outcome.inject)
  have db': "db' = db\<lparr>groups := groups db @ [?group], group_members := group_members db @ [?row]\<rparr>"
    using both by (simp only:)
  have uniq: "\<forall>g'\<in>set (groups db). grp_invite_code g' \<noteq> Some (inviteCode draws)"
    using i1 by (auto simp: insert_group_def split: if_splits)
  have len: "length (inviteCode draws) = 12" if "\<forall>k<12. draws k < 36"
    using inviteCode_digits [OF that] by simp
  show ?thesis
    using uniq len inviteCode_nonempty [of draws] by (simp add: g db')
qed

theorem handleCreateGroup_created_witness:
  "fst (handleCreateGroup (Some 10) 10 (\<lambda>k. k) 3 30 ''Sets'' ''Naive'' [''zf''] 50 sample_db)
     = Created \<lparr>grp_id = 3, grp_name = ''Sets'', grp_description = ''Naive'', grp_topics = [''zf''],
          grp_max_members = 50, grp_invite_code = Some ''0123456789ab'', grp_created_at = 30\<rparr>
   \<and> length (inviteCode (\<lambda>k. k)) = 12
   \<and> map grp_invite_code (groups sample_db) = [Some ''abc123abc123'', Some ''zzz999zzz999'']
   \<and> map (\<lambda>m. (gm_group_id m, gm_user_id m, gm_is_creator m))
        (group_members (snd (handleCreateGroup (Some 10) 10 (\<lambda>k. k) 3 30 ''Sets'' ''Naive'' [''zf''] 50 sample_db)))
     = [(1, 10, True), (2, 11, True), (1, 11, False), (3, 10, True)]"
  using handleCreateGroup_created [of "Some 10" 10 "\<lambda>k. k" 3 30 "''Sets''" "''Naive''" "[''zf'']" 50 sample_db
          "\<lparr>grp_id = 3, grp_name = ''Sets'', grp_description = ''Naive'', grp_topics = [''zf''],
            grp_max_members = 50, grp_invite_code = Some ''0123456789ab'', grp_created_at = 30\<rparr>"
          "snd (handleCreateGroup (Some 10) 10 (\<lambda>k. k) 3 30 ''Sets'' ''Naive'' [''zf''] 50 sample_db)"]
  by (simp add: handleCreateGroup_def insert_group_def insert_group_member_def inviteCode_sample Let_def
      sample_db_def sample_group1_def sample_group2_def)

section \<open>Properties of the dashboard's profile fetch\<close>

text \<open>
  C6, as stated, for every user without a profile row: the fetch is claimed not to fail
  and to insert a default profile. When \<open>auth.getUser()\<close> returns no user, nothing is
  inserted; the two further attempts find no row either, and the fetch ends with the
  failure message and without a profile. User 12 of the sample data has no profile row.
\<close>

theorem fetchProfile_counterexample:
  "map up_id (user_profiles sample_db) = [11]
   \<and> d_error (snd (fetchProfile signed_out_env 12 sample_db empty_dashboard))
      = Some ''Failed to load profile. Please refresh the page.''
   \<and> d_profile (snd (fetchProfile signed_out_env 12 sample_db empty_dashboard)) = None
   \<and> d_timeouts (snd (fetchProfile signed_out_env 12 sample_db empty_dashboard)) = [1000, 2000, 4000]
   \<and> fst (fetchProfile signed_out_env 12 sample_db empty_dashboard) = sample_db"
  by (simp add: fetchProfile_def fetchProfile_loop.simps create_default_def sample_db_def
      sample_profile11_def signed_out_env_def empty_dashboard_def)

text \<open>
  C6, amended. When the fetch finds no profile row for the user, \<open>auth.getUser()\<close>
  returns a user and the insert of the default profile succeeds, the fetch does not fail:
  the default profile is the one row added to \<open>user_profiles\<close>, it becomes the
  displayed profile at once (no waiting), the error is cleared and the theme is
  \<open>dark\<close>. The default profile has the user's id, the local part of the address (or
  \<open>User\<close>) as name, the standard bio, no topics, theme \<open>dark\<close>, gender \<open>other\<close> and the
  generated avatar.
\<close>

theorem fetchProfile_creates_default:
  assumes "filter (\<lambda>p. up_id p = userId) (user_profiles db) = []"
    and "fe_getUser env = Some user"
    and "fst (insert_user_profile (Some (au_id user)) (defaultProfile env userId user) db) = None"
  shows "fst (fetchProfile env userId db ui)
           = db\<lparr>user_profiles := user_profiles db @ [defaultProfile env userId user]\<rparr>
       \<and> d_profile (snd (fetchProfile env userId db ui)) = Some (defaultProfile env userId user)
       \<and> d_error (snd (fetchProfile env userId db ui)) = None
       \<and> d_body_className (snd (fetchProfile env userId db ui)) = ''dark''
       \<and> d_timeouts (snd (fetchProfile env userId db ui)) = d_timeouts ui
       \<and> up_id (defaultProfile env userId user) = userId
       \<and> up_name (defaultProfile env userId user) = default_name (au_email user)
       \<and> up_bio (defaultProfile env userId user) = ''I'm here to learn and teach''
       \<and> up_topics (defaultProfile env userId user) = []
       \<and> up_theme (defaultProfile env userId user) = ''dark''
       \<and> up_gender (defaultProfile env userId user) = Some ''other''
       \<and> up_profile_picture_url (defaultProfile env userId user) = Some stickman_avatar"
proof -
  let ?row = "defaultProfile env userId user"
  have ins: "insert_user_profile (Some (au_id user)) ?row db
      = (None, db\<lparr>user_profiles := user_profiles db @ [?row]\<rparr>)"
    using assms(3) by (auto simp: insert_user_profile_def split: if_splits)
  have cd: "create_default env userId db = (Some ?row, db\<lparr>user_profiles := user_profiles db @ [?row]\<rparr>)"
    by (simp add: create_default_def assms(2) ins)
  have loop: "fetchProfile_loop env userId 0 db (d_timeouts ui)
      = (Some ?row, db\<lparr>user_profiles := user_profiles db @ [?row]\<rparr>, d_timeouts ui)"
    by (subst fetchProfile_loop.simps) (simp add: assms(1) cd)
  have theme: "up_theme ?row = ''dark''"
    by (simp add: defaultProfile_def)
  show ?thesis
    by (simp add: fetchProfile_def loop theme) (simp add: defaultProfile_def)
qed

theorem fetchProfile_creates_default_witness:
  "map up_id (user_profiles sample_db) = [11]
   \<and> fe_getUser signed_in_env = Some sample_user10
   \<and> fst (insert_user_profile (Some 10) (defaultProfile signed_in_env 10 sample_user10) sample_db) = None
   \<and> map up_name (user_profiles (fst (fetchProfile signed_in_env 10 sample_db empty_dashboard)))
      = [''bob'', ''ada'']
   \<and> map_option up_name (d_profile (snd (fetchProfile signed_in_env 10 sample_db empty_dashboard)))
      = Some ''ada''
   \<and> d_error (snd (fetchProfile signed_in_env 10 sample_db empty_dashboard)) = None
   \<and> d_timeouts (snd (fetchProfile signed_in_env 10 sample_db empty_dashboard)) = []"
  using fetchProfile_creates_default [of 10 sample_db signed_in_env sample_user10 empty_dashboard]
  by (simp add: sample_db_def sample_profile11_def insert_user_profile_def defaultProfile_def
      default_name_def signed_in_env_def sample_user10_def empty_dashboard_def)

section \<open>Properties of the avatar uploader\<close>

text \<open>
  C8. For a selected file: if anything is uploaded, the file has at most
  \<open>5 * 1024 * 1024\<close> bytes and a MIME type that starts with \<open>image/\<close>. When either check
  fails, nothing is uploaded and the profile state is unchanged. Every upload goes to the
  bucket \<open>avatars\<close> and carries the JPEG blob of a canvas of 1000 by 1000 composited from
  the file, never the file itself. When both checks pass and the browser delivers the
  image, the context and the blob, exactly that one upload is made.
\<close>

theorem handleFileUpload_guarded:
  "(uploads (fst (handleFileUpload env userId (Some f) profile)) \<noteq> []
      \<longrightarrow> f_size f \<le> 5 * 1024 * 1024 \<and> take 6 (f_type f) = ''image/'')
   \<and> (f_size f > 5 * 1024 * 1024 \<or> take 6 (f_type f) \<noteq> ''image/''
      \<longrightarrow> uploads (fst (handleFileUpload env userId (Some f) profile)) = []
        \<and> snd (handleFileUpload env userId (Some f) profile) = profile)
   \<and> (\<forall>u\<in>set (uploads (fst (handleFileUpload env userId (Some f) profile))).
        \<exists>name w h. u = (''avatars'', name, Canvas_blob (composite f w h) ''image/jpeg'' (9 / 10),
                         ''image/jpeg'', True)
          \<and> cv_width (composite f w h) = 1000 \<and> cv_height (composite f w h) = 1000
          \<and> Canvas_blob (composite f w h) ''image/jpeg'' (9 / 10) \<noteq> File_body f)
   \<and> (f_size f \<le> 5 * 1024 * 1024 \<and> take 6 (f_type f) = ''image/''
        \<and> ue_image env f = Some (w0, h0) \<and> ue_context env \<and> ue_blob env
      \<longrightarrow> uploads (fst (handleFileUpload env userId (Some f) profile))
            = [(''avatars'', userId @ ''-'' @ decimal (ue_now env) @ ''.jpg'',
                Canvas_blob (composite f w0 h0) ''image/jpeg'' (9 / 10), ''image/jpeg'', True)])"
  by (auto simp: handleFileUpload_def Let_def composite_def split: option.splits)

theorem handleFileUpload_guarded_witness:
  "uploads (fst (handleFileUpload sample_upload_env ''u11'' (Some small_png) sample_profile11))
     = [(''avatars'', ''u11-1700.jpg'',
         Canvas_blob \<lparr>cv_width = 1000, cv_height = 1000,
            cv_ops = [FillRect ''white'' 0 0 1000 1000, DrawImage 77 0 (- 250) 1000 1500]\<rparr>
           ''image/jpeg'' (9 / 10),
         ''image/jpeg'', True)]
   \<and> up_profile_picture_url (snd (handleFileUpload sample_upload_env ''u11'' (Some small_png) sample_profile11))
     = Some ''https://cdn.example.org/avatars/u11-1700.jpg''
   \<and> handleFileUpload sample_upload_env ''u11'' (Some huge_png) sample_profile11
     = ([Alert ''File size must be less than 5MB''], sample_profile11)
   \<and> handleFileUpload sample_upload_env ''u11'' (Some text_file) sample_profile11
     = ([Alert ''Only image files are allowed''], sample_profile11)"
  using handleFileUpload_guarded [of sample_upload_env "''u11''" small_png sample_profile11 200 300]
        handleFileUpload_guarded [of sample_upload_env "''u11''" huge_png sample_profile11 200 300]
        handleFileUpload_guarded [of sample_upload_env "''u11''" text_file sample_profile11 200 300]
  by (simp add: handleFileUpload_def composite_def decimal.simps Let_def sample_upload_env_def
      small_png_def huge_png_def text_file_def)

end
